theory Spec2Isabelle
  imports Main
begin

section \<open>JavaScript values and strings\<close>

text \<open>
  The script \<^verbatim>\<open>src/index.ts\<close> is sequential glue around an external shell. Its strings
  are modelled as \<^typ>\<open>string\<close>, one \<^typ>\<open>char\<close> per code unit below 256. The values that
  a \<^verbatim>\<open>catch\<close> clause can receive, and that the module variable \<^verbatim>\<open>adbPath\<close> can hold, are
  the following: \<^verbatim>\<open>undefined\<close>, \<^verbatim>\<open>null\<close>, a string, or an \<^verbatim>\<open>Error\<close> object with its
  \<^verbatim>\<open>name\<close> and \<^verbatim>\<open>message\<close>.
\<close>

datatype js_value = JsUndefined | JsNull | JsString string | JsError string string

text \<open>The test of \<^verbatim>\<open>if (error)\<close> and of \<^verbatim>\<open>!adbPath\<close>.\<close>

fun truthy :: "js_value \<Rightarrow> bool" where
  "truthy JsUndefined = False"
| "truthy JsNull = False"
| "truthy (JsString s) = (s \<noteq> [])"
| "truthy (JsError n m) = True"

text \<open>What a template literal \<^verbatim>\<open>${v}\<close> inserts for a value.\<close>

fun to_string :: "js_value \<Rightarrow> string" where
  "to_string JsUndefined = ''undefined''"
| "to_string JsNull = ''null''"
| "to_string (JsString s) = s"
| "to_string (JsError n m) = (if n = [] then m else if m = [] then n else n @ '': '' @ m)"

fun instanceof_Error :: "js_value \<Rightarrow> bool" where
  "instanceof_Error (JsError n m) = True"
| "instanceof_Error v = False"

fun error_message :: "js_value \<Rightarrow> string" where
  "error_message (JsError n m) = m"
| "error_message v = []"

text \<open>\<^verbatim>\<open>s.includes(p)\<close>: \<open>p\<close> occurs in \<open>s\<close> as a contiguous block.\<close>

fun str_includes :: "string \<Rightarrow> string \<Rightarrow> bool" where
  "str_includes [] p = (p = [])"
| "str_includes (c # cs) p = (take (length p) (c # cs) = p \<or> str_includes cs p)"

text \<open>
  \<^verbatim>\<open>s.trim()\<close> removes white space at both ends. Below 256 the white space and line
  terminator code units are tab, line feed, vertical tab, form feed, carriage return,
  space and the no-break space.
\<close>

definition is_space :: "char \<Rightarrow> bool" where
  "is_space c = (c = CHR 0x09 \<or> c = CHR 0x0A \<or> c = CHR 0x0B \<or> c = CHR 0x0C \<or>
                 c = CHR 0x0D \<or> c = CHR 0x20 \<or> c = CHR 0xA0)"

definition trim :: "string \<Rightarrow> string" where
  "trim s = rev (dropWhile is_space (rev (dropWhile is_space s)))"

text \<open>\<^verbatim>\<open>s.split("\n")\<close>: the empty string gives one empty piece.\<close>

fun split_newline :: "string \<Rightarrow> string list" where
  "split_newline [] = [[]]"
| "split_newline (c # cs) =
     (if c = CHR 0x0A then [] # split_newline cs
      else (case split_newline cs of [] \<Rightarrow> [[c]] | l # ls \<Rightarrow> (c # l) # ls))"

text \<open>A number in a template literal: the exit code is an integer.\<close>

definition digit_char :: "nat \<Rightarrow> char" where
  "digit_char d = ''0123456789'' ! (d mod 10)"

fun digits_of :: "nat \<Rightarrow> string" where
  "digits_of n = (if n < 10 then [digit_char n] else digits_of (n div 10) @ [digit_char n])"

declare digits_of.simps [simp del]

definition number_to_string :: "int \<Rightarrow> string" where
  "number_to_string i = (if i < 0 then CHR ''-'' # digits_of (nat (- i)) else digits_of (nat i))"

section \<open>The environment of a run\<close>

text \<open>
  Everything outside the script is a parameter. The world \<open>'w\<close> is whatever the shell,
  the file system, the clock and the terminal depend on; a shell command, a reading of the
  clock or a prompt may change it. A shell invocation either runs to an exit code, with
  the captured output, or the shell layer itself throws. A prompt either gets the line
  that was typed, or \<^verbatim>\<open>rl.question\<close> throws, as it does when the input has been closed or
  has ended. Every invocation and every prompt is taken to come back in one of these ways:
  a command that hangs or a prompt that waits for ever is not a run of this model.

  The fields of the environment: the shell; \<^verbatim>\<open>Bun.file(path).size\<close>, which is 0 for a file
  that does not exist; \<^verbatim>\<open>homedir()\<close> and \<^verbatim>\<open>join\<close>; \<^verbatim>\<open>Bun.color(c, "ansi")\<close> as it appears
  inside a string; \<^verbatim>\<open>new Date().toISOString()\<close>; the line typed at a prompt, or the value
  that the prompt throws; and
  \<^verbatim>\<open>JSON.stringify(e, null, 2)\<close> as it appears inside a string.
\<close>

datatype shell_outcome = Exited string string int | Failed js_value

record 'w env =
  shell :: "string \<Rightarrow> 'w \<Rightarrow> shell_outcome \<times> 'w"
  file_size :: "string \<Rightarrow> 'w \<Rightarrow> nat"
  homedir :: string
  join :: "string \<Rightarrow> string \<Rightarrow> string"
  color :: "string \<Rightarrow> string"
  now_iso :: "'w \<Rightarrow> string \<times> 'w"
  read_line :: "string \<Rightarrow> 'w \<Rightarrow> (js_value + string) \<times> 'w"
  json_stringify :: "js_value \<Rightarrow> string"

text \<open>
  What the script does to the outside is recorded in order: its own console output (a
  string, the result object of a command, or the array of lines), the commands it hands to
  the shell, the file sizes it reads, the files it writes (path, data and mode), its
  prompts, and the closing of the prompt interface.
\<close>

datatype event =
    ConsoleLog string
  | ConsoleLogResult string string int
  | ConsoleLogLines "string list"
  | ConsoleError string
  | ShellRun string
  | FileSize string
  | FileWrite string string nat
  | Question string
  | RlClose

text \<open>The module variables \<^verbatim>\<open>adbPath\<close> and \<^verbatim>\<open>debugLog\<close>, the record of effects, the world.\<close>

record 'w state =
  adbPath :: js_value
  debugLog :: string
  trace :: "event list"
  world :: 'w

definition initial :: "'w \<Rightarrow> 'w state" where
  "initial w = \<lparr>adbPath = JsUndefined, debugLog = [], trace = [], world = w\<rparr>"

section \<open>Statements that may throw\<close>

text \<open>
  A statement runs in a state and either returns a value or is cut short: by a thrown
  value, which the nearest enclosing \<^verbatim>\<open>try\<close> receives, or by \<^verbatim>\<open>process.exit\<close>, which no
  \<^verbatim>\<open>try\<close> receives.
\<close>

datatype abort = Throw js_value | Exit int

type_synonym ('w, 'a) prog = "'w state \<Rightarrow> (abort + 'a) \<times> 'w state"

definition unit_prog :: "'a \<Rightarrow> ('w, 'a) prog" where
  "unit_prog a = (\<lambda>s. (Inr a, s))"

definition bind_prog :: "('w, 'a) prog \<Rightarrow> ('a \<Rightarrow> ('w, 'b) prog) \<Rightarrow> ('w, 'b) prog" where
  "bind_prog m f = (\<lambda>s. case m s of (Inl e, s') \<Rightarrow> (Inl e, s') | (Inr a, s') \<Rightarrow> f a s')"

definition try_catch :: "('w, 'a) prog \<Rightarrow> (js_value \<Rightarrow> ('w, 'a) prog) \<Rightarrow> ('w, 'a) prog" where
  "try_catch m h = (\<lambda>s. case m s of (Inl (Throw e), s') \<Rightarrow> h e s' | r \<Rightarrow> r)"

definition emit :: "event \<Rightarrow> ('w, unit) prog" where
  "emit ev = (\<lambda>s. (Inr (), s\<lparr>trace := trace s @ [ev]\<rparr>))"

definition console_log :: "string \<Rightarrow> ('w, unit) prog" where
  "console_log text = emit (ConsoleLog text)"

definition console_error :: "string \<Rightarrow> ('w, unit) prog" where
  "console_error text = emit (ConsoleError text)"

definition process_exit :: "int \<Rightarrow> ('w, 'a) prog" where
  "process_exit n = (\<lambda>s. (Inl (Exit n), s))"

text \<open>
  The shell template with \<^verbatim>\<open>.throws(true)\<close>, and \<^verbatim>\<open>.text()\<close> alike: a non-zero exit code is
  thrown as a \<^verbatim>\<open>ShellError\<close>, an \<^verbatim>\<open>Error\<close> whose message names the exit code.
\<close>

definition ShellError :: "int \<Rightarrow> js_value" where
  "ShellError code = JsError ''ShellError'' (''Failed with exit code '' @ number_to_string code)"

definition shell_throws :: "'w env \<Rightarrow> string \<Rightarrow> ('w, string \<times> string \<times> int) prog" where
  "shell_throws env command = (\<lambda>s.
     case shell env command (world s) of
       (Exited out err code, w') \<Rightarrow>
         (if code = 0 then Inr (out, err, code) else Inl (Throw (ShellError code)),
          s\<lparr>trace := trace s @ [ShellRun command], world := w'\<rparr>)
     | (Failed e, w') \<Rightarrow>
         (Inl (Throw e), s\<lparr>trace := trace s @ [ShellRun command], world := w'\<rparr>))"

section \<open>The script\<close>

text \<open>\<^verbatim>\<open>const fileExists = (path) => Bun.file(path).size > 0\<close>\<close>

definition fileExists :: "'w env \<Rightarrow> string \<Rightarrow> ('w, bool) prog" where
  "fileExists env path = (\<lambda>s.
     (Inr (0 < file_size env path (world s)), s\<lparr>trace := trace s @ [FileSize path]\<rparr>))"

text \<open>The result object of \<^verbatim>\<open>execCommand\<close>; in the \<^verbatim>\<open>catch\<close> branch \<^verbatim>\<open>stderr\<close> is the caught value.\<close>

record command_result =
  stdout :: string
  stderr :: js_value
  exitCode :: int

definition execCommand_try :: "'w env \<Rightarrow> string \<Rightarrow> ('w, command_result) prog" where
  "execCommand_try env command =
     bind_prog (shell_throws env ''adb devices'') (\<lambda>(devices, _, _).
     bind_prog (console_log (devices @ '' which adb'')) (\<lambda>_.
     bind_prog (shell_throws env command) (\<lambda>(out, err, code).
     bind_prog (emit (ConsoleLogResult out err code)) (\<lambda>_.
     unit_prog \<lparr>stdout = out, stderr = JsString err, exitCode = code\<rparr>))))"

definition execCommand_catch :: "js_value \<Rightarrow> ('w, command_result) prog" where
  "execCommand_catch error =
     (if truthy error then unit_prog \<lparr>stdout = [], stderr = error, exitCode = 1\<rparr>
      else unit_prog \<lparr>stdout = [], stderr = JsString ''Unknown error'', exitCode = 1\<rparr>)"

definition execCommand :: "'w env \<Rightarrow> string \<Rightarrow> ('w, command_result) prog" where
  "execCommand env command = try_catch (execCommand_try env command) execCommand_catch"

text \<open>
  \<^verbatim>\<open>const question = (query) => new Promise((resolve) => rl.question(query, resolve))\<close>,
  awaited: the prompt is written and the answer returned, or what \<^verbatim>\<open>rl.question\<close> throws is
  thrown to the caller before anything is written.
\<close>

definition question :: "'w env \<Rightarrow> string \<Rightarrow> ('w, string) prog" where
  "question env query = (\<lambda>s.
     case read_line env query (world s) of
       (Inr answer, w') \<Rightarrow> (Inr answer, s\<lparr>trace := trace s @ [Question query], world := w'\<rparr>)
     | (Inl e, w') \<Rightarrow> (Inl (Throw e), s\<lparr>world := w'\<rparr>))"

definition colorText :: "'w env \<Rightarrow> string \<Rightarrow> string \<Rightarrow> string" where
  "colorText env text c = color env c @ text @ color env ''reset''"

text \<open>
  \<^verbatim>\<open>Bun.write("wearos_connector_debug.log ", logMessage, { mode: 0o777 })\<close> is not awaited:
  the script hands over the path, the data and the mode (octal 777 is 511) and never looks
  at the outcome.
\<close>

definition debug_log_file :: string where
  "debug_log_file = ''wearos_connector_debug.log ''"

definition addToDebugLog :: "'w env \<Rightarrow> string \<Rightarrow> ('w, unit) prog" where
  "addToDebugLog env message = (\<lambda>s.
     case now_iso env (world s) of
       (stamp, w') \<Rightarrow>
         (let logMessage = stamp @ '': '' @ message @ [CHR 0x0A]
          in (Inr (), s\<lparr>debugLog := debugLog s @ logMessage,
                         trace := trace s @ [FileWrite debug_log_file logMessage 511, ConsoleLog message],
                         world := w'\<rparr>)))"

definition commonPaths :: "'w env \<Rightarrow> string list" where
  "commonPaths env =
     [''/usr/local/bin/adb'',
      ''/opt/homebrew/bin/adb'',
      join env (homedir env) ''Library/Android/sdk/platform-tools/adb'',
      join env (homedir env) ''Android/Sdk/platform-tools/adb'',
      ''/usr/bin/adb'']"

text \<open>\<^verbatim>\<open>for (const path of commonPaths) { if (fileExists(path)) return path; } return null;\<close>\<close>

fun first_existing :: "'w env \<Rightarrow> string list \<Rightarrow> ('w, js_value) prog" where
  "first_existing env [] = unit_prog JsNull"
| "first_existing env (path # paths) =
     bind_prog (fileExists env path) (\<lambda>found.
       if found then unit_prog (JsString path) else first_existing env paths)"

definition findAdbPath :: "'w env \<Rightarrow> ('w, js_value) prog" where
  "findAdbPath env =
     try_catch
       (bind_prog (execCommand env ''which adb'') (\<lambda>r.
        bind_prog (console_log (stdout r)) (\<lambda>_.
        if exitCode r = 0 \<and> trim (stdout r) \<noteq> [] then unit_prog (JsString (trim (stdout r)))
        else first_existing env (commonPaths env))))
       (\<lambda>e.
        bind_prog (addToDebugLog env (''Error finding ADB path: '' @ to_string e)) (\<lambda>_.
        unit_prog JsNull))"

definition nonblank_lines :: "string \<Rightarrow> string list" where
  "nonblank_lines out = filter (\<lambda>line. trim line \<noteq> []) (split_newline out)"

definition isDeviceConnected :: "'w env \<Rightarrow> ('w, bool) prog" where
  "isDeviceConnected env =
     try_catch
       (bind_prog (execCommand env ''adb devices'') (\<lambda>r.
        bind_prog (addToDebugLog env (''ADB devices output: '' @ stdout r)) (\<lambda>_.
        bind_prog (emit (ConsoleLogLines (nonblank_lines (stdout r)))) (\<lambda>_.
        unit_prog (exitCode r = 0 \<and> length (nonblank_lines (stdout r)) > 1)))))
       (\<lambda>e.
        bind_prog (addToDebugLog env (''Error checking device connection: '' @ to_string e)) (\<lambda>_.
        unit_prog False))"

definition offline_hint :: string where
  "offline_hint = ''Device is offline. Please ensure it's connected and try again.''"

definition getInstalledApps_try :: "'w env \<Rightarrow> ('w, unit) prog" where
  "getInstalledApps_try env =
       (bind_prog (\<lambda>s. (Inr (adbPath s), s)) (\<lambda>path.
        bind_prog (execCommand env (to_string path @ '' shell pm list packages'')) (\<lambda>r.
        if exitCode r = 0 then
          bind_prog (console_log (colorText env ''Installed Apps:'' ''blue'')) (\<lambda>_.
          console_log (stdout r))
        else
          console_error
            (colorText env (''Failed to get installed apps: '' @ to_string (stderr r)) ''red''))))"

definition getInstalledApps_catch :: "'w env \<Rightarrow> js_value \<Rightarrow> ('w, unit) prog" where
  "getInstalledApps_catch env e =
        bind_prog
          (if instanceof_Error e \<and> str_includes (error_message e) ''device offline'' then
             console_error (colorText env offline_hint ''yellow'')
           else
             console_error
               (colorText env (''Error getting installed apps: '' @ to_string e) ''red''))
          (\<lambda>_. addToDebugLog env (''Exception details: '' @ to_string e))"

definition getInstalledApps :: "'w env \<Rightarrow> ('w, unit) prog" where
  "getInstalledApps env = try_catch (getInstalledApps_try env) (getInstalledApps_catch env)"

definition getStorageInfo_try :: "'w env \<Rightarrow> ('w, unit) prog" where
  "getStorageInfo_try env =
       (bind_prog (\<lambda>s. (Inr (adbPath s), s)) (\<lambda>path.
        bind_prog (execCommand env (to_string path @ '' shell df'')) (\<lambda>r.
        if exitCode r = 0 then
          bind_prog (console_log (colorText env ''Storage Info:'' ''blue'')) (\<lambda>_.
          console_log (stdout r))
        else
          console_error
            (colorText env (''Failed to get storage info: '' @ to_string (stderr r)) ''red''))))"

definition getStorageInfo_catch :: "'w env \<Rightarrow> js_value \<Rightarrow> ('w, unit) prog" where
  "getStorageInfo_catch env e =
        bind_prog
          (if instanceof_Error e \<and> str_includes (error_message e) ''device offline'' then
             console_error (colorText env offline_hint ''yellow'')
           else
             console_error
               (colorText env (''Error getting storage info: '' @ to_string e) ''red''))
          (\<lambda>_. addToDebugLog env (''Exception details: '' @ to_string e))"

definition getStorageInfo :: "'w env \<Rightarrow> ('w, unit) prog" where
  "getStorageInfo env = try_catch (getStorageInfo_try env) (getStorageInfo_catch env)"

definition connect_command :: "string \<Rightarrow> string \<Rightarrow> string" where
  "connect_command ipAddress port = ''adb connect '' @ ipAddress @ '':'' @ port"

definition connectDevice :: "'w env \<Rightarrow> string \<Rightarrow> string \<Rightarrow> ('w, unit) prog" where
  "connectDevice env ipAddress port =
     try_catch
       (bind_prog
          (addToDebugLog env
             (''Connecting device with command: '' @ connect_command ipAddress port)) (\<lambda>_.
        bind_prog (execCommand env (connect_command ipAddress port)) (\<lambda>r.
        bind_prog (addToDebugLog env (''Connect stdout: '' @ stdout r)) (\<lambda>_.
        bind_prog (addToDebugLog env (''Connect stderr: '' @ to_string (stderr r))) (\<lambda>_.
        bind_prog
          (addToDebugLog env (''Connect exit code: '' @ number_to_string (exitCode r))) (\<lambda>_.
        if exitCode r = 0 then
          bind_prog (console_log (colorText env ''Device connected successfully'' ''green'')) (\<lambda>_.
          bind_prog (getInstalledApps env) (\<lambda>_.
          getStorageInfo env))
        else
          console_error
            (colorText env (''Connection failed: '' @ to_string (stderr r)) ''red'')))))))
       (\<lambda>e.
        bind_prog
          (console_error (colorText env (''Error connecting device: '' @ to_string e) ''red''))
          (\<lambda>_. addToDebugLog env (''Exception details: '' @ to_string e)))"

definition pair_command :: "string \<Rightarrow> string \<Rightarrow> string \<Rightarrow> string" where
  "pair_command ipAddress port pairCode =
     ''adb pair '' @ ipAddress @ '':'' @ port @ '' '' @ pairCode"

definition pairDevice :: "'w env \<Rightarrow> string \<Rightarrow> string \<Rightarrow> string \<Rightarrow> ('w, unit) prog" where
  "pairDevice env ipAddress port pairCode =
     try_catch
       (bind_prog (addToDebugLog env ''Attempting to pair device...'') (\<lambda>_.
        bind_prog
          (addToDebugLog env (''Command: '' @ pair_command ipAddress port pairCode)) (\<lambda>_.
        bind_prog (execCommand env (pair_command ipAddress port pairCode)) (\<lambda>r.
        bind_prog (addToDebugLog env (''Stdout: '' @ stdout r)) (\<lambda>_.
        bind_prog (addToDebugLog env (''Stderr: '' @ to_string (stderr r))) (\<lambda>_.
        bind_prog (addToDebugLog env (''Exit code: '' @ number_to_string (exitCode r))) (\<lambda>_.
        if exitCode r = 0 then
          bind_prog (console_log (colorText env ''Device paired successfully'' ''green'')) (\<lambda>_.
          connectDevice env ipAddress port)
        else
          console_error
            (colorText env (''Pairing failed: '' @ to_string (stderr r)) ''red''))))))))
       (\<lambda>e.
        bind_prog
          (console_error (colorText env (''Error pairing device: '' @ to_string e) ''red''))
          (\<lambda>_. addToDebugLog env (''Exception details: '' @ json_stringify env e)))"

definition saved_message :: string where
  "saved_message = CHR 0x0A # ''Full debug log has been saved to wearos_connector_debug.log''"

text \<open>The last statements of \<^verbatim>\<open>main\<close>, from \<^verbatim>\<open>console.log(colorText("\nDebug Log:", ...))\<close> on.\<close>

definition print_debug_log :: "'w env \<Rightarrow> ('w, unit) prog" where
  "print_debug_log env =
     bind_prog (console_log (colorText env (CHR 0x0A # ''Debug Log:'') ''magenta'')) (\<lambda>_.
     bind_prog (\<lambda>s. (Inr (debugLog s), s)) (\<lambda>log.
     bind_prog (console_log log) (\<lambda>_.
     bind_prog (console_log (colorText env saved_message ''yellow'')) (\<lambda>_.
     emit RlClose))))"

text \<open>The two branches of \<^verbatim>\<open>if (isConnected)\<close> in \<^verbatim>\<open>main\<close>.\<close>

definition main_connected :: "'w env \<Rightarrow> ('w, unit) prog" where
  "main_connected env =
     bind_prog (console_log (colorText env ''A device is already connected.'' ''green'')) (\<lambda>_.
     bind_prog (getInstalledApps env) (\<lambda>_.
     getStorageInfo env))"

definition main_not_connected :: "'w env \<Rightarrow> ('w, unit) prog" where
  "main_not_connected env =
     bind_prog
       (console_log (colorText env ''No device connected. Let's connect one.'' ''yellow'')) (\<lambda>_.
     bind_prog (question env ''Enter IP Address: '') (\<lambda>ipAddress.
     bind_prog (question env ''Enter Port: '') (\<lambda>port.
     bind_prog (question env ''Enter Pair Code: '') (\<lambda>pairCode.
     bind_prog (pairDevice env ipAddress port pairCode) (\<lambda>_.
     connectDevice env ipAddress port)))))"

definition main :: "'w env \<Rightarrow> ('w, unit) prog" where
  "main env =
     bind_prog (console_log (colorText env ''WearOS Connector'' ''cyan'')) (\<lambda>_.
     bind_prog (findAdbPath env) (\<lambda>found.
     bind_prog (\<lambda>s. (Inr (), s\<lparr>adbPath := found\<rparr>)) (\<lambda>_.
     bind_prog
       (if \<not> truthy found then
          bind_prog
            (console_error
               (colorText env ''ADB not found. Please install it and add it to your PATH.'' ''red''))
            (\<lambda>_. process_exit 1)
        else unit_prog ()) (\<lambda>_.
     bind_prog (console_log (colorText env (''ADB found at: '' @ to_string found) ''green'')) (\<lambda>_.
     bind_prog (isDeviceConnected env) (\<lambda>isConnected.
     bind_prog (if isConnected then main_connected env else main_not_connected env) (\<lambda>_.
     print_debug_log env)))))))"

section \<open>Notions used to state the properties\<close>

text \<open>What \<^verbatim>\<open>execCommand\<close> returns when it has caught the value \<open>e\<close>.\<close>

definition caught :: "js_value \<Rightarrow> command_result" where
  "caught e = \<lparr>stdout = [], stderr = (if truthy e then e else JsString ''Unknown error''), exitCode = 1\<rparr>"

text \<open>The effects recorded between the state \<open>s\<close> and the later state \<open>s'\<close>.\<close>

definition new_events :: "'w state \<Rightarrow> 'w state \<Rightarrow> event list" where
  "new_events s s' = drop (length (trace s)) (trace s')"

text \<open>
  A statement completes within the commands \<open>cs\<close> when, run in \<open>s\<close>, it returns normally
  (nothing thrown, no exit), leaves \<^verbatim>\<open>adbPath\<close> as it was, only adds to the record of
  effects, and hands the shell no command outside \<open>cs\<close>.
\<close>

definition command_in :: "string list \<Rightarrow> event \<Rightarrow> bool" where
  "command_in cs ev = (case ev of ShellRun c \<Rightarrow> c \<in> set cs | _ \<Rightarrow> True)"

definition completes :: "string list \<Rightarrow> ('w, 'a) prog \<Rightarrow> 'w state \<Rightarrow> bool" where
  "completes cs m s =
     (case m s of
        (Inl e, s') \<Rightarrow> False
      | (Inr a, s') \<Rightarrow>
          adbPath s' = adbPath s \<and> take (length (trace s)) (trace s') = trace s \<and>
          list_all (command_in cs) (new_events s s'))"

text \<open>
  The commands that \<^verbatim>\<open>connectDevice\<close> and \<^verbatim>\<open>pairDevice\<close> can hand to the shell, the routines
  they call included, when \<^verbatim>\<open>adbPath\<close> holds \<open>path\<close>.
\<close>

definition connect_commands :: "js_value \<Rightarrow> string \<Rightarrow> string \<Rightarrow> string list" where
  "connect_commands path ipAddress port =
     [''adb devices'', connect_command ipAddress port,
      to_string path @ '' shell pm list packages'', to_string path @ '' shell df'']"

definition pair_commands :: "js_value \<Rightarrow> string \<Rightarrow> string \<Rightarrow> string \<Rightarrow> string list" where
  "pair_commands path ipAddress port pairCode =
     pair_command ipAddress port pairCode # connect_commands path ipAddress port"

text \<open>The diagnostic \<^verbatim>\<open>adb devices\<close> of \<^verbatim>\<open>execCommand\<close> completes with exit code 0 in the world \<open>w\<close>.\<close>

definition diagnostic_ok :: "'w env \<Rightarrow> 'w \<Rightarrow> bool" where
  "diagnostic_ok env w =
     (case fst (shell env ''adb devices'' w) of
        Exited d e code \<Rightarrow> code = 0
      | Failed x \<Rightarrow> False)"

text \<open>
  The statement returns normally, leaves \<^verbatim>\<open>adbPath\<close> alone and has handed the command \<open>c\<close>
  to the shell.
\<close>

definition issues :: "string \<Rightarrow> ('w, 'a) prog \<Rightarrow> 'w state \<Rightarrow> bool" where
  "issues c m s =
     (case m s of
        (Inl e, s') \<Rightarrow> False
      | (Inr a, s') \<Rightarrow>
          adbPath s' = adbPath s \<and> take (length (trace s)) (trace s') = trace s \<and>
          ShellRun c \<in> set (new_events s s'))"

text \<open>
  The number of non-blank lines of an output, in the words of the specification and in one
  pass over the characters: a line ends at a line feed or at the end of the output, and it
  is counted when one of its characters is not white space. The flag says whether such a
  character has been seen in the line being read.
\<close>

fun count_nonblank_from :: "bool \<Rightarrow> string \<Rightarrow> nat" where
  "count_nonblank_from seen [] = (if seen then 1 else 0)"
| "count_nonblank_from seen (c # cs) =
     (if c = CHR 0x0A then (if seen then 1 else 0) + count_nonblank_from False cs
      else count_nonblank_from (seen \<or> \<not> is_space c) cs)"

definition count_nonblank_lines :: "string \<Rightarrow> nat" where
  "count_nonblank_lines out = count_nonblank_from False out"

text \<open>The paths whose size the script read, in order.\<close>

fun file_probes :: "event list \<Rightarrow> string list" where
  "file_probes [] = []"
| "file_probes (FileSize path # evs) = path # file_probes evs"
| "file_probes (ev # evs) = file_probes evs"

text \<open>The shell commands and the error messages among the recorded effects, in order.\<close>

fun commands_and_errors :: "event list \<Rightarrow> event list" where
  "commands_and_errors [] = []"
| "commands_and_errors (ShellRun c # evs) = ShellRun c # commands_and_errors evs"
| "commands_and_errors (ConsoleError t # evs) = ConsoleError t # commands_and_errors evs"
| "commands_and_errors (ev # evs) = commands_and_errors evs"

text \<open>
  The fallback of the tool locator in the words of the specification: the first path of
  the list whose file has a size above zero, \<^verbatim>\<open>null\<close> when there is none; and the paths
  that are looked at on the way, up to and including that first one.
\<close>

definition first_nonempty_file :: "'w env \<Rightarrow> 'w \<Rightarrow> string list \<Rightarrow> js_value" where
  "first_nonempty_file env w paths =
     (case find (\<lambda>path. 0 < file_size env path w) paths of
        None \<Rightarrow> JsNull
      | Some path \<Rightarrow> JsString path)"

fun probed :: "'w env \<Rightarrow> 'w \<Rightarrow> string list \<Rightarrow> string list" where
  "probed env w [] = []"
| "probed env w (path # paths) =
     path # (if 0 < file_size env path w then [] else probed env w paths)"

text \<open>A sequence of calls of \<^verbatim>\<open>addToDebugLog\<close>, one per message, in order.\<close>

fun log_all :: "'w env \<Rightarrow> string list \<Rightarrow> ('w, unit) prog" where
  "log_all env [] = unit_prog ()"
| "log_all env (m # ms) = bind_prog (addToDebugLog env m) (\<lambda>_. log_all env ms)"

text \<open>The time stamps that \<open>n\<close> successive readings of the clock give, from the world \<open>w\<close> on.\<close>

fun clock_readings :: "'w env \<Rightarrow> 'w \<Rightarrow> nat \<Rightarrow> string list" where
  "clock_readings env w 0 = []"
| "clock_readings env w (Suc n) =
     fst (now_iso env w) # clock_readings env (snd (now_iso env w)) n"

fun clock_after :: "'w env \<Rightarrow> 'w \<Rightarrow> nat \<Rightarrow> 'w" where
  "clock_after env w 0 = w"
| "clock_after env w (Suc n) = clock_after env (snd (now_iso env w)) n"

text \<open>The line of the specification: the time stamp, a colon and a space, the message, a line feed.\<close>

definition log_line :: "string \<Rightarrow> string \<Rightarrow> string" where
  "log_line stamp text = stamp @ '': '' @ text @ [CHR 0x0A]"

text \<open>
  An ISO 8601 time stamp in the form that \<^verbatim>\<open>toISOString\<close> produces,
  \<^verbatim>\<open>YYYY-MM-DDTHH:mm:ss.sssZ\<close>, with every field in its range.
\<close>

definition is_digit :: "char \<Rightarrow> bool" where
  "is_digit c = (c \<in> set ''0123456789'')"

definition two_digits :: "string \<Rightarrow> nat \<Rightarrow> nat" where
  "two_digits t i = 10 * (of_char (t ! i) - 48) + (of_char (t ! (i + 1)) - 48)"

definition iso_timestamp :: "string \<Rightarrow> bool" where
  "iso_timestamp t =
     (length t = 24 \<and>
      list_all (\<lambda>i. is_digit (t ! i)) [0, 1, 2, 3, 5, 6, 8, 9, 11, 12, 14, 15, 17, 18, 20, 21, 22] \<and>
      t ! 4 = CHR ''-'' \<and> t ! 7 = CHR ''-'' \<and> t ! 10 = CHR ''T'' \<and> t ! 13 = CHR '':'' \<and>
      t ! 16 = CHR '':'' \<and> t ! 19 = CHR ''.'' \<and> t ! 23 = CHR ''Z'' \<and>
      1 \<le> two_digits t 5 \<and> two_digits t 5 \<le> 12 \<and>
      1 \<le> two_digits t 8 \<and> two_digits t 8 \<le> 31 \<and>
      two_digits t 11 \<le> 23 \<and> two_digits t 14 \<le> 59 \<and> two_digits t 17 \<le> 59)"

text \<open>
  \<^verbatim>\<open>path.join\<close> never returns the empty string; this is what the script needs of it for
  the two paths under the home directory.
\<close>

definition join_never_empty :: "'w env \<Rightarrow> bool" where
  "join_never_empty env =
     (join env (homedir env) ''Library/Android/sdk/platform-tools/adb'' \<noteq> [] \<and>
      join env (homedir env) ''Android/Sdk/platform-tools/adb'' \<noteq> [])"

section \<open>Concrete runs\<close>

text \<open>
  A concrete environment whose shell answers by the command alone and whose world never
  changes: the outcome table \<open>sh\<close>, the file sizes \<open>fs\<close>, the answers \<open>ans\<close> typed at
  the prompts, each of which is answered. The home directory is \<^verbatim>\<open>/home/user\<close>, colours are written as tags, and the
  clock stands still.
\<close>

definition fixed_env ::
  "(string \<Rightarrow> shell_outcome) \<Rightarrow> (string \<Rightarrow> nat) \<Rightarrow> (string \<Rightarrow> string) \<Rightarrow> unit env" where
  "fixed_env sh fs ans =
     \<lparr>shell = (\<lambda>c w. (sh c, w)),
      file_size = (\<lambda>p w. fs p),
      homedir = ''/home/user'',
      join = (\<lambda>a b. a @ ''/'' @ b),
      color = (\<lambda>c. ''<'' @ c @ ''>''),
      now_iso = (\<lambda>w. (''2024-05-01T12:00:00.000Z'', w)),
      read_line = (\<lambda>q w. (Inr (ans q), w)),
      json_stringify = (\<lambda>v. ''{}'')\<rparr>"

definition device_header :: string where
  "device_header = ''List of devices attached'' @ [CHR 0x0A]"

text \<open>What the user types at the three prompts.\<close>

definition typed_answers :: "string \<Rightarrow> string" where
  "typed_answers query =
     (if query = ''Enter IP Address: '' then ''192.168.1.20''
      else if query = ''Enter Port: '' then ''37000''
      else ''123456'')"

text \<open>A shell in which every command succeeds; \<^verbatim>\<open>adb start-server\<close> reports on standard error.\<close>

definition chatty_shell :: "string \<Rightarrow> shell_outcome" where
  "chatty_shell c =
     (if c = ''adb devices'' then Exited device_header [] 0
      else if c = ''adb start-server'' then Exited [] ''* daemon started successfully'' 0
      else Exited [] [] 0)"

definition chatty_env :: "unit env" where
  "chatty_env = fixed_env chatty_shell (\<lambda>p. 0) (\<lambda>q. [])"

text \<open>
  A shell in which nothing works: \<^verbatim>\<open>adb\<close> is not on the search path, so every command,
  the diagnostic included, ends with exit code 1.
\<close>

definition broken_shell :: "string \<Rightarrow> shell_outcome" where
  "broken_shell c = Exited [] ''bun: command not found: adb'' 1"

definition broken_env :: "unit env" where
  "broken_env = fixed_env broken_shell (\<lambda>p. 0) (\<lambda>q. [])"

text \<open>No device is attached, and the list ends with a line of a space and a tab.\<close>

definition blank_line_shell :: "string \<Rightarrow> shell_outcome" where
  "blank_line_shell c =
     (if c = ''adb devices'' then Exited (device_header @ [CHR 0x20, CHR 0x09, CHR 0x0A]) [] 0
      else Exited [] [] 0)"

definition blank_line_env :: "unit env" where
  "blank_line_env = fixed_env blank_line_shell (\<lambda>p. 0) (\<lambda>q. [])"

text \<open>
  A world that counts the shell invocations: the first one, the diagnostic, completes; from
  the second one on every command prints a device list of two lines and ends with exit
  code 1.
\<close>

definition failing_later_env :: "nat env" where
  "failing_later_env =
     \<lparr>shell = (\<lambda>c n.
        (if n = 0 then Exited device_header [] 0
         else Exited (device_header @ ''192.168.1.20:5555'' @ [CHR 0x09] @ ''device'' @ [CHR 0x0A])
                ''adb: server stopped'' 1,
         Suc n)),
      file_size = (\<lambda>p w. 0),
      homedir = ''/home/user'',
      join = (\<lambda>a b. a @ ''/'' @ b),
      color = (\<lambda>c. ''<'' @ c @ ''>''),
      now_iso = (\<lambda>w. (''2024-05-01T12:00:00.000Z'', w)),
      read_line = (\<lambda>q w. (Inr [], w)),
      json_stringify = (\<lambda>v. ''{}'')\<rparr>"

text \<open>The shell layer throws \<^verbatim>\<open>undefined\<close> whatever the command.\<close>

definition throwing_env :: "unit env" where
  "throwing_env = fixed_env (\<lambda>c. Failed JsUndefined) (\<lambda>p. 0) (\<lambda>q. [])"

text \<open>
  A shell with one device attached, and \<^verbatim>\<open>adb\<close> on the search path.
\<close>

definition attached_shell :: "string \<Rightarrow> shell_outcome" where
  "attached_shell c =
     (if c = ''adb devices'' then
        Exited (device_header @ ''192.168.1.20:5555'' @ [CHR 0x09] @ ''device'' @ [CHR 0x0A, CHR 0x0A]) [] 0
      else if c = ''which adb'' then Exited (''/usr/bin/adb'' @ [CHR 0x0A]) [] 0
      else Exited [] [] 0)"

definition attached_env :: "unit env" where
  "attached_env = fixed_env attached_shell (\<lambda>p. 0) (\<lambda>q. [])"

text \<open>
  \<^verbatim>\<open>adb\<close> is not on the search path, and the only installation is the one of the Android
  SDK under the home directory.
\<close>

definition sdk_only :: "string \<Rightarrow> nat" where
  "sdk_only path = (if path = ''/home/user/Android/Sdk/platform-tools/adb'' then 5000000 else 0)"

definition fallback_env :: "unit env" where
  "fallback_env = fixed_env broken_shell sdk_only (\<lambda>q. [])"

text \<open>
  \<^verbatim>\<open>adb\<close> answers on the search path, but \<^verbatim>\<open>which\<close> does not find it, and the tool is the
  one of the Android SDK under the home directory.
\<close>

definition no_which_shell :: "string \<Rightarrow> shell_outcome" where
  "no_which_shell c =
     (if c = ''adb devices'' then Exited device_header [] 0
      else if c = ''which adb'' then Exited [] ''which: no adb in (/usr/bin:/bin)'' 1
      else Exited [] [] 0)"

definition no_which_env :: "unit env" where
  "no_which_env = fixed_env no_which_shell sdk_only typed_answers"

text \<open>
  No device is attached, the user types an address, a port and a pairing code, and both
  \<^verbatim>\<open>adb pair\<close> and \<^verbatim>\<open>adb connect\<close> end with exit code 1.
\<close>

definition unpaired_shell :: "string \<Rightarrow> shell_outcome" where
  "unpaired_shell c =
     (if c = ''adb devices'' then Exited device_header [] 0
      else if c = ''which adb'' then Exited (''/usr/bin/adb'' @ [CHR 0x0A]) [] 0
      else if c = ''adb pair 192.168.1.20:37000 123456'' then
        Exited [] ''Failed: Wrong password or connection was dropped.'' 1
      else if c = ''adb connect 192.168.1.20:37000'' then
        Exited [] ''failed to connect to 192.168.1.20:37000'' 1
      else Exited [] [] 0)"

definition unpaired_env :: "unit env" where
  "unpaired_env = fixed_env unpaired_shell (\<lambda>p. 0) typed_answers"

text \<open>
  The input has been closed: every prompt throws. The shell is the one of the failed
  pairing, where \<^verbatim>\<open>which adb\<close> finds the tool and no device is attached.
\<close>

definition closed_input_env :: "unit env" where
  "closed_input_env =
     unpaired_env\<lparr>read_line := (\<lambda>q w. (Inl (JsError ''Error'' ''readline was closed''), w))\<rparr>"

text \<open>
  The device is attached but offline: listing the packages makes the shell layer throw an
  \<^verbatim>\<open>Error\<close> whose message says so, and \<^verbatim>\<open>df\<close> ends with exit code 1.
\<close>

definition offline_shell :: "string \<Rightarrow> shell_outcome" where
  "offline_shell c =
     (if c = ''adb devices'' then
        Exited (device_header @ ''192.168.1.20:5555'' @ [CHR 0x09] @ ''offline'' @ [CHR 0x0A]) [] 0
      else if c = ''/usr/bin/adb shell pm list packages'' then
        Failed (JsError ''Error'' ''adb: device offline'')
      else if c = ''/usr/bin/adb shell df'' then Exited [] ''adb: device offline'' 1
      else Exited [] [] 0)"

definition offline_env :: "unit env" where
  "offline_env = fixed_env offline_shell (\<lambda>p. 0) (\<lambda>q. [])"

section \<open>Basic facts\<close>

lemma bind_prog_Inr: "m s = (Inr a, s') \<Longrightarrow> bind_prog m f s = f a s'"
  by (simp add: bind_prog_def)

lemma bind_prog_Inl: "m s = (Inl e, s') \<Longrightarrow> bind_prog m f s = (Inl e, s')"
  by (simp add: bind_prog_def)

lemma try_catch_Inr: "m s = (Inr a, s') \<Longrightarrow> try_catch m h s = (Inr a, s')"
  by (simp add: try_catch_def)

lemma try_catch_Throw: "m s = (Inl (Throw e), s') \<Longrightarrow> try_catch m h s = h e s'"
  by (simp add: try_catch_def)

lemma shell_throws_ok:
  "shell env c (world s) = (Exited out err 0, w') \<Longrightarrow>
   shell_throws env c s = (Inr (out, err, 0), s\<lparr>trace := trace s @ [ShellRun c], world := w'\<rparr>)"
  by (simp add: shell_throws_def)

lemma shell_throws_nonzero:
  "shell env c (world s) = (Exited out err code, w') \<Longrightarrow> code \<noteq> 0 \<Longrightarrow>
   shell_throws env c s =
     (Inl (Throw (ShellError code)), s\<lparr>trace := trace s @ [ShellRun c], world := w'\<rparr>)"
  by (simp add: shell_throws_def)

lemma shell_throws_failed:
  "shell env c (world s) = (Failed e, w') \<Longrightarrow>
   shell_throws env c s = (Inl (Throw e), s\<lparr>trace := trace s @ [ShellRun c], world := w'\<rparr>)"
  by (simp add: shell_throws_def)

lemma execCommand_catch_eq: "execCommand_catch e s = (Inr (caught e), s)"
  by (simp add: execCommand_catch_def caught_def unit_prog_def)

lemma execCommand_ok:
  assumes "shell env ''adb devices'' (world s) = (Exited d e 0, w1)"
    and "shell env c w1 = (Exited out err 0, w2)"
  shows "execCommand env c s =
    (Inr \<lparr>stdout = out, stderr = JsString err, exitCode = 0\<rparr>,
     s\<lparr>trace := trace s @ [ShellRun ''adb devices'', ConsoleLog (d @ '' which adb''),
                              ShellRun c, ConsoleLogResult out err 0],
       world := w2\<rparr>)"
  using assms
  by (simp add: execCommand_def execCommand_try_def try_catch_def bind_prog_def shell_throws_def
      console_log_def emit_def unit_prog_def)

lemma shell_throws_cases:
  obtains (ok) out err w' where "shell_throws env c s = (Inr (out, err, 0), s\<lparr>trace := trace s @ [ShellRun c], world := w'\<rparr>)"
      "shell env c (world s) = (Exited out err 0, w')"
  | (thrown) e w' where "shell_throws env c s = (Inl (Throw e), s\<lparr>trace := trace s @ [ShellRun c], world := w'\<rparr>)"
proof (cases "shell env c (world s)")
  case (Pair oc w')
  show ?thesis
  proof (cases oc)
    case (Exited out err code)
    show ?thesis
    proof (cases "code = 0")
      case True
      with Pair Exited show ?thesis by (intro ok[of out err w']) (simp_all add: shell_throws_def)
    next
      case False
      with Pair Exited show ?thesis by (intro thrown[of "ShellError code" w']) (simp add: shell_throws_def)
    qed
  next
    case (Failed e)
    with Pair show ?thesis by (intro thrown[of e w']) (simp add: shell_throws_def)
  qed
qed

lemma completesI:
  "m s = (Inr a, s') \<Longrightarrow> adbPath s' = adbPath s \<Longrightarrow> trace s' = trace s @ evs \<Longrightarrow>
   list_all (command_in cs) evs \<Longrightarrow> completes cs m s"
  by (simp add: completes_def new_events_def)

lemma completesE:
  assumes "completes cs m s"
  obtains a s' evs where "m s = (Inr a, s')" "adbPath s' = adbPath s"
    "trace s' = trace s @ evs" "list_all (command_in cs) evs"
proof (cases "m s")
  case (Pair r s')
  with assms obtain a where a: "r = Inr a"
    by (cases r) (simp_all add: completes_def)
  from assms Pair a have p: "adbPath s' = adbPath s"
    and t: "take (length (trace s)) (trace s') = trace s"
    and l: "list_all (command_in cs) (new_events s s')"
    by (simp_all add: completes_def)
  have "trace s' = trace s @ new_events s s'"
    using t by (metis append_take_drop_id new_events_def)
  with Pair a p l show ?thesis by (intro that) auto
qed

lemma command_in_mono:
  "set cs \<subseteq> set cs' \<Longrightarrow> command_in cs ev \<Longrightarrow> command_in cs' ev"
  by (cases ev) (auto simp: command_in_def)

lemma completes_mono:
  assumes "completes cs m s" and "set cs \<subseteq> set cs'"
  shows "completes cs' m s"
proof -
  from assms(1) obtain a s' evs where *: "m s = (Inr a, s')" "adbPath s' = adbPath s"
    "trace s' = trace s @ evs" "list_all (command_in cs) evs"
    by (rule completesE)
  from *(4) assms(2) have "list_all (command_in cs') evs"
    by (auto simp: list_all_iff intro: command_in_mono)
  with * show ?thesis by (intro completesI) auto
qed

lemma completes_bind:
  assumes "completes cs m s"
    and "\<And>a s'. m s = (Inr a, s') \<Longrightarrow> adbPath s' = adbPath s \<Longrightarrow> completes cs (f a) s'"
  shows "completes cs (bind_prog m f) s"
proof -
  from assms(1) obtain a s' evs where m: "m s = (Inr a, s')" "adbPath s' = adbPath s"
    "trace s' = trace s @ evs" "list_all (command_in cs) evs"
    by (rule completesE)
  from assms(2)[OF m(1) m(2)] obtain b s'' evs' where f: "f a s' = (Inr b, s'')"
    "adbPath s'' = adbPath s'" "trace s'' = trace s' @ evs'" "list_all (command_in cs) evs'"
    by (rule completesE)
  show ?thesis
  proof (rule completesI)
    show "bind_prog m f s = (Inr b, s'')" using m(1) f(1) by (simp add: bind_prog_def)
    show "adbPath s'' = adbPath s" using m(2) f(2) by simp
    show "trace s'' = trace s @ (evs @ evs')" using m(3) f(3) by simp
    show "list_all (command_in cs) (evs @ evs')" using m(4) f(4) by simp
  qed
qed

lemma completes_try_catch:
  assumes "completes cs m s"
  shows "completes cs (try_catch m h) s" and "try_catch m h s = m s"
proof -
  from assms obtain a s' evs where m: "m s = (Inr a, s')" "adbPath s' = adbPath s"
    "trace s' = trace s @ evs" "list_all (command_in cs) evs"
    by (rule completesE)
  then show "try_catch m h s = m s" by (simp add: try_catch_def)
  with assms show "completes cs (try_catch m h) s" by (simp add: completes_def)
qed

lemma completes_unit: "completes cs (unit_prog a) s"
  by (simp add: completes_def new_events_def unit_prog_def)

lemma completes_read: "completes cs (\<lambda>s. (Inr (g s), s)) s"
  by (simp add: completes_def new_events_def)

lemma completes_console_log: "completes cs (console_log text) s"
  by (simp add: completes_def new_events_def console_log_def emit_def command_in_def)

lemma completes_console_error: "completes cs (console_error text) s"
  by (simp add: completes_def new_events_def console_error_def emit_def command_in_def)

lemma completes_emit: "command_in cs ev \<Longrightarrow> completes cs (emit ev) s"
  by (simp add: completes_def new_events_def emit_def)

lemma completes_if:
  "(b \<Longrightarrow> completes cs m s) \<Longrightarrow> (\<not> b \<Longrightarrow> completes cs n s) \<Longrightarrow>
   completes cs (if b then m else n) s"
  by simp

lemma addToDebugLog_eq:
  "addToDebugLog env text s =
     (Inr (), s\<lparr>debugLog := debugLog s @ fst (now_iso env (world s)) @ '': '' @ text @ [CHR 0x0A],
                 trace := trace s @
                   [FileWrite debug_log_file
                      (fst (now_iso env (world s)) @ '': '' @ text @ [CHR 0x0A]) 511,
                    ConsoleLog text],
                 world := snd (now_iso env (world s))\<rparr>)"
  by (simp add: addToDebugLog_def Let_def split: prod.splits)

lemma completes_addToDebugLog: "completes cs (addToDebugLog env text) s"
  by (simp add: completes_def new_events_def addToDebugLog_eq command_in_def)

lemma completes_fileExists: "completes cs (fileExists env path) s"
  by (simp add: completes_def new_events_def fileExists_def command_in_def)

lemma execCommand_total:
  obtains r evs w' where
    "execCommand env c s = (Inr r, s\<lparr>trace := trace s @ evs, world := w'\<rparr>)"
    "list_all (command_in [''adb devices'', c]) evs"
    "exitCode r = 0 \<or> exitCode r = 1"
    "file_probes evs = []"
proof (cases rule: shell_throws_cases[of env "''adb devices''" s])
  case (thrown e w')
  then have "execCommand env c s =
      (Inr (caught e), s\<lparr>trace := trace s @ [ShellRun ''adb devices''], world := w'\<rparr>)"
    by (simp add: execCommand_def execCommand_try_def try_catch_def bind_prog_def
        execCommand_catch_eq)
  then show ?thesis
    by (rule that) (simp_all add: command_in_def caught_def)
next
  case (ok d e w1)
  let ?s1 = "s\<lparr>trace := trace s @ [ShellRun ''adb devices''], world := w1\<rparr>"
  let ?s2 = "?s1\<lparr>trace := trace ?s1 @ [ConsoleLog (d @ '' which adb'')]\<rparr>"
  show ?thesis
  proof (cases rule: shell_throws_cases[of env c ?s2])
    case (thrown x w2)
    with ok(1) have "execCommand env c s =
        (Inr (caught x),
         s\<lparr>trace := trace s @ [ShellRun ''adb devices'', ConsoleLog (d @ '' which adb''), ShellRun c],
           world := w2\<rparr>)"
      by (simp add: execCommand_def execCommand_try_def try_catch_def bind_prog_def
          execCommand_catch_eq console_log_def emit_def)
    then show ?thesis
      by (rule that) (simp_all add: command_in_def caught_def)
  next
    case inner: (ok out err w2)
    from inner(2) have "shell env c w1 = (Exited out err 0, w2)" by simp
    from execCommand_ok[OF ok(2) this] show ?thesis
      by (rule that) (simp_all add: command_in_def)
  qed
qed

lemma completes_execCommand:
  "set [''adb devices'', c] \<subseteq> set cs \<Longrightarrow> completes cs (execCommand env c) s"
proof -
  assume sub: "set [''adb devices'', c] \<subseteq> set cs"
  obtain r evs w' where *:
    "execCommand env c s = (Inr r, s\<lparr>trace := trace s @ evs, world := w'\<rparr>)"
    "list_all (command_in [''adb devices'', c]) evs"
    by (rule execCommand_total)
  have "completes [''adb devices'', c] (execCommand env c) s"
    using * by (simp add: completes_def new_events_def)
  then show ?thesis using sub by (rule completes_mono)
qed

lemma completes_first_existing: "completes cs (first_existing env paths) s"
proof (induction paths arbitrary: s)
  case Nil
  show ?case by (simp add: completes_unit)
next
  case (Cons p ps)
  show ?case
    unfolding first_existing.simps
    by (rule completes_bind[OF completes_fileExists]) (simp add: completes_unit Cons.IH)
qed

lemma completes_getInstalledApps_try:
  "completes [''adb devices'', to_string (adbPath s) @ '' shell pm list packages'']
     (getInstalledApps_try env) s"
  unfolding getInstalledApps_try_def
  apply (rule completes_bind[OF completes_read])
  apply (rule completes_bind[OF completes_execCommand])
   apply simp
  apply (rule completes_if)
   apply (rule completes_bind[OF completes_console_log])
   apply (rule completes_console_log)
  apply (rule completes_console_error)
  done

lemma getInstalledApps_no_catch: "getInstalledApps env s = getInstalledApps_try env s"
  unfolding getInstalledApps_def
  by (rule completes_try_catch(2)[OF completes_getInstalledApps_try])

lemma completes_getInstalledApps:
  "set [''adb devices'', to_string (adbPath s) @ '' shell pm list packages''] \<subseteq> set cs \<Longrightarrow>
   completes cs (getInstalledApps env) s"
  unfolding getInstalledApps_def
  by (rule completes_mono[OF completes_try_catch(1)[OF completes_getInstalledApps_try]])

lemma completes_getStorageInfo_try:
  "completes [''adb devices'', to_string (adbPath s) @ '' shell df'']
     (getStorageInfo_try env) s"
  unfolding getStorageInfo_try_def
  apply (rule completes_bind[OF completes_read])
  apply (rule completes_bind[OF completes_execCommand])
   apply simp
  apply (rule completes_if)
   apply (rule completes_bind[OF completes_console_log])
   apply (rule completes_console_log)
  apply (rule completes_console_error)
  done

lemma getStorageInfo_no_catch: "getStorageInfo env s = getStorageInfo_try env s"
  unfolding getStorageInfo_def
  by (rule completes_try_catch(2)[OF completes_getStorageInfo_try])

lemma completes_getStorageInfo:
  "set [''adb devices'', to_string (adbPath s) @ '' shell df''] \<subseteq> set cs \<Longrightarrow>
   completes cs (getStorageInfo env) s"
  unfolding getStorageInfo_def
  by (rule completes_mono[OF completes_try_catch(1)[OF completes_getStorageInfo_try]])

lemma completes_connectDevice:
  "set (connect_commands (adbPath s) ip port) \<subseteq> set cs \<Longrightarrow>
   completes cs (connectDevice env ip port) s"
  unfolding connectDevice_def connect_commands_def
  apply (rule completes_try_catch(1))
  apply (rule completes_bind[OF completes_addToDebugLog])
  apply (rule completes_bind[OF completes_execCommand])
   apply simp
  apply (rule completes_bind[OF completes_addToDebugLog])
  apply (rule completes_bind[OF completes_addToDebugLog])
  apply (rule completes_bind[OF completes_addToDebugLog])
  apply (rule completes_if)
   apply (rule completes_bind[OF completes_console_log])
   apply (rule completes_bind[OF completes_getInstalledApps])
    apply simp
   apply (rule completes_getStorageInfo)
   apply simp
  apply (rule completes_console_error)
  done

lemma completes_pairDevice:
  "set (pair_commands (adbPath s) ip port code) \<subseteq> set cs \<Longrightarrow>
   completes cs (pairDevice env ip port code) s"
  unfolding pairDevice_def pair_commands_def
  apply (rule completes_try_catch(1))
  apply (rule completes_bind[OF completes_addToDebugLog])
  apply (rule completes_bind[OF completes_addToDebugLog])
  apply (rule completes_bind[OF completes_execCommand])
   apply (simp add: connect_commands_def)
  apply (rule completes_bind[OF completes_addToDebugLog])
  apply (rule completes_bind[OF completes_addToDebugLog])
  apply (rule completes_bind[OF completes_addToDebugLog])
  apply (rule completes_if)
   apply (rule completes_bind[OF completes_console_log])
   apply (rule completes_connectDevice)
   apply simp
  apply (rule completes_console_error)
  done

lemma completes_isDeviceConnected: "completes [''adb devices''] (isDeviceConnected env) s"
  unfolding isDeviceConnected_def
  apply (rule completes_try_catch(1))
  apply (rule completes_bind[OF completes_execCommand])
   apply simp
  apply (rule completes_bind[OF completes_addToDebugLog])
  apply (rule completes_bind[OF completes_emit])
   apply (simp add: command_in_def)
  apply (rule completes_unit)
  done

lemma completes_findAdbPath: "completes [''adb devices'', ''which adb''] (findAdbPath env) s"
  unfolding findAdbPath_def
  apply (rule completes_try_catch(1))
  apply (rule completes_bind[OF completes_execCommand])
   apply simp
  apply (rule completes_bind[OF completes_console_log])
  apply (rule completes_if)
   apply (rule completes_unit)
  apply (rule completes_first_existing)
  done

lemma shell_fixed_env [simp]: "shell (fixed_env sh fs ans) c w = (sh c, w)"
  by (simp add: fixed_env_def)

lemma world_initial [simp]: "world (initial w) = w"
  by (simp add: initial_def)

section \<open>The command executor\<close>

text \<open>
  C2, as the specification words it: for every command whose shell invocation completes
  with exit code 0, the result of \<^verbatim>\<open>execCommand\<close> has \<^verbatim>\<open>exitCode\<close> 0 and an empty
  \<^verbatim>\<open>stderr\<close>. The second half fails: \<^verbatim>\<open>stderr\<close> is \<^verbatim>\<open>result.stderr.toString()\<close>, whatever the
  command wrote there. Here \<^verbatim>\<open>adb start-server\<close> exits with 0 after writing a line to
  standard error, and the result carries that line.
\<close>

theorem execCommand_stderr_counterexample:
  "shell chatty_env ''adb start-server'' () =
     (Exited [] ''* daemon started successfully'' 0, ()) \<and>
   fst (execCommand chatty_env ''adb start-server'' (initial ())) =
     Inr \<lparr>stdout = [], stderr = JsString ''* daemon started successfully'', exitCode = 0\<rparr> \<and>
   JsString ''* daemon started successfully'' \<noteq> JsString []"
proof -
  have d: "shell chatty_env ''adb devices'' (world (initial ())) = (Exited device_header [] 0, ())"
    by (simp add: chatty_env_def chatty_shell_def)
  have c: "shell chatty_env ''adb start-server'' () =
      (Exited [] ''* daemon started successfully'' 0, ())"
    by (simp add: chatty_env_def chatty_shell_def)
  show ?thesis
    by (simp add: execCommand_ok[OF d c] c)
qed

text \<open>
  C2, amended: when the invocation of the command takes place, that is, when the
  \<^verbatim>\<open>adb devices\<close> diagnostic that \<^verbatim>\<open>execCommand\<close> runs first has completed with exit code 0,
  and the invocation completes with exit code 0, then the result has \<^verbatim>\<open>exitCode\<close> 0, and
  its \<^verbatim>\<open>stdout\<close> and \<^verbatim>\<open>stderr\<close> are the captured standard output and standard error of the
  command. So \<^verbatim>\<open>stderr\<close> is empty exactly when the command wrote nothing to standard error.
\<close>

theorem execCommand_success:
  assumes "shell env ''adb devices'' (world s) = (Exited d e 0, w1)"
    and "shell env command w1 = (Exited out err 0, w2)"
  shows "fst (execCommand env command s) =
           Inr \<lparr>stdout = out, stderr = JsString err, exitCode = 0\<rparr>"
  by (simp add: execCommand_ok[OF assms])

theorem execCommand_success_witness:
  "shell chatty_env ''adb devices'' (world (initial ())) = (Exited device_header [] 0, ()) \<and>
   shell chatty_env ''adb start-server'' () =
     (Exited [] ''* daemon started successfully'' 0, ()) \<and>
   fst (execCommand chatty_env ''adb start-server'' (initial ())) =
     Inr \<lparr>stdout = [], stderr = JsString ''* daemon started successfully'', exitCode = 0\<rparr>"
proof -
  have d: "shell chatty_env ''adb devices'' (world (initial ())) = (Exited device_header [] 0, ())"
    by (simp add: chatty_env_def chatty_shell_def)
  have c: "shell chatty_env ''adb start-server'' () =
      (Exited [] ''* daemon started successfully'' 0, ())"
    by (simp add: chatty_env_def chatty_shell_def)
  show ?thesis
    using d c execCommand_success[OF d c] by simp
qed

lemma execCommand_try_total:
  obtains (returned) r s1 where "execCommand_try env command s = (Inr r, s1)"
  | (thrown) e s1 where "execCommand_try env command s = (Inl (Throw e), s1)"
proof (cases rule: shell_throws_cases[of env "''adb devices''" s])
  case (thrown e w')
  then show ?thesis
    by (intro that(2)[of e]) (simp add: execCommand_try_def bind_prog_def)
next
  case (ok d e w1)
  let ?s1 = "s\<lparr>trace := trace s @ [ShellRun ''adb devices''], world := w1\<rparr>"
  let ?s2 = "?s1\<lparr>trace := trace ?s1 @ [ConsoleLog (d @ '' which adb'')]\<rparr>"
  show ?thesis
  proof (cases rule: shell_throws_cases[of env command ?s2])
    case (thrown x w2)
    with ok(1) show ?thesis
      by (intro that(2)[of x])
         (simp add: execCommand_try_def bind_prog_def console_log_def emit_def)
  next
    case inner: (ok out err w2)
    with ok(1) show ?thesis
      by (intro that(1)[of "\<lparr>stdout = out, stderr = JsString err, exitCode = 0\<rparr>"])
         (simp add: execCommand_try_def bind_prog_def console_log_def emit_def unit_prog_def)
  qed
qed

text \<open>
  C6, as the specification words it: for every error thrown during command execution the
  executor returns \<^verbatim>\<open>{stdout: "", stderr: the error text or "Unknown error", exitCode: 1}\<close>.
  The \<^verbatim>\<open>catch\<close> clause returns \<^verbatim>\<open>stderr: error\<close>, the caught value itself. Where \<^verbatim>\<open>adb\<close> is
  not on the search path the diagnostic ends with exit code 1, and the \<^verbatim>\<open>stderr\<close> of the
  result is the \<^verbatim>\<open>ShellError\<close> object, which is not the string of its text.
\<close>

theorem execCommand_stderr_is_not_text_counterexample:
  "execCommand broken_env ''which adb'' (initial ()) =
     (Inr \<lparr>stdout = [], stderr = JsError ''ShellError'' ''Failed with exit code 1'', exitCode = 1\<rparr>,
      (initial ())\<lparr>trace := [ShellRun ''adb devices'']\<rparr>) \<and>
   to_string (JsError ''ShellError'' ''Failed with exit code 1'') =
     ''ShellError: Failed with exit code 1'' \<and>
   JsError ''ShellError'' ''Failed with exit code 1'' \<noteq>
     JsString ''ShellError: Failed with exit code 1''"
  by (simp add: execCommand_def execCommand_try_def execCommand_catch_def try_catch_def
      bind_prog_def unit_prog_def shell_throws_def broken_env_def broken_shell_def initial_def
      ShellError_def number_to_string_def digits_of.simps digit_char_def)

text \<open>
  C6, amended: \<^verbatim>\<open>execCommand\<close> always returns a result and never passes an exception on.
  Whatever value \<open>e\<close> is thrown inside its \<^verbatim>\<open>try\<close> block, by the diagnostic or by the
  command, the result is \<^verbatim>\<open>{stdout: "", stderr: e, exitCode: 1}\<close> with the caught value itself
  in \<^verbatim>\<open>stderr\<close>, and with the string \<^verbatim>\<open>"Unknown error"\<close> in its place when \<open>e\<close> is falsy, that is
  \<^verbatim>\<open>undefined\<close>, \<^verbatim>\<open>null\<close> or the empty string. The text of the error appears only where a
  caller puts \<^verbatim>\<open>stderr\<close> into a template literal.
\<close>

theorem execCommand_catches:
  "(\<exists>r s'. execCommand env command s = (Inr r, s')) \<and>
   (execCommand_try env command s = (Inl (Throw e), s1) \<longrightarrow>
    execCommand env command s =
      (Inr \<lparr>stdout = [],
            stderr = (if e = JsUndefined \<or> e = JsNull \<or> e = JsString [] then
                        JsString ''Unknown error''
                      else e),
            exitCode = 1\<rparr>, s1))"
proof
  show "\<exists>r s'. execCommand env command s = (Inr r, s')"
    by (cases rule: execCommand_try_total[of env command s])
       (simp_all add: execCommand_def try_catch_def execCommand_catch_eq)
  have falsy: "(\<not> truthy e) = (e = JsUndefined \<or> e = JsNull \<or> e = JsString [])"
    by (cases e) simp_all
  show "execCommand_try env command s = (Inl (Throw e), s1) \<longrightarrow>
    execCommand env command s =
      (Inr \<lparr>stdout = [],
            stderr = (if e = JsUndefined \<or> e = JsNull \<or> e = JsString [] then
                        JsString ''Unknown error''
                      else e),
            exitCode = 1\<rparr>, s1)"
    using falsy
    by (simp add: execCommand_def try_catch_def execCommand_catch_eq caught_def)
qed

theorem execCommand_catches_witness:
  "execCommand_try broken_env ''which adb'' (initial ()) =
     (Inl (Throw (ShellError 1)), (initial ())\<lparr>trace := [ShellRun ''adb devices'']\<rparr>) \<and>
   execCommand broken_env ''which adb'' (initial ()) =
     (Inr \<lparr>stdout = [], stderr = JsError ''ShellError'' ''Failed with exit code 1'', exitCode = 1\<rparr>,
      (initial ())\<lparr>trace := [ShellRun ''adb devices'']\<rparr>) \<and>
   execCommand_try throwing_env ''which adb'' (initial ()) =
     (Inl (Throw JsUndefined), (initial ())\<lparr>trace := [ShellRun ''adb devices'']\<rparr>) \<and>
   execCommand throwing_env ''which adb'' (initial ()) =
     (Inr \<lparr>stdout = [], stderr = JsString ''Unknown error'', exitCode = 1\<rparr>,
      (initial ())\<lparr>trace := [ShellRun ''adb devices'']\<rparr>)"
proof -
  have t: "execCommand_try broken_env ''which adb'' (initial ()) =
     (Inl (Throw (ShellError 1)), (initial ())\<lparr>trace := [ShellRun ''adb devices'']\<rparr>)"
    by (simp add: execCommand_try_def bind_prog_def shell_throws_def broken_env_def
        broken_shell_def initial_def)
  have u: "execCommand_try throwing_env ''which adb'' (initial ()) =
     (Inl (Throw JsUndefined), (initial ())\<lparr>trace := [ShellRun ''adb devices'']\<rparr>)"
    by (simp add: execCommand_try_def bind_prog_def shell_throws_def throwing_env_def
        initial_def)
  have n: "number_to_string 1 = ''1''"
    by (simp add: number_to_string_def digits_of.simps digit_char_def)
  from execCommand_catches[of broken_env "''which adb''" "initial ()" "ShellError 1"
      "(initial ())\<lparr>trace := [ShellRun ''adb devices'']\<rparr>"] t
  have first: "execCommand broken_env ''which adb'' (initial ()) =
     (Inr \<lparr>stdout = [], stderr = JsError ''ShellError'' ''Failed with exit code 1'', exitCode = 1\<rparr>,
      (initial ())\<lparr>trace := [ShellRun ''adb devices'']\<rparr>)"
    by (simp add: ShellError_def n)
  from execCommand_catches[of throwing_env "''which adb''" "initial ()" JsUndefined
      "(initial ())\<lparr>trace := [ShellRun ''adb devices'']\<rparr>"] u
  have second: "execCommand throwing_env ''which adb'' (initial ()) =
     (Inr \<lparr>stdout = [], stderr = JsString ''Unknown error'', exitCode = 1\<rparr>,
      (initial ())\<lparr>trace := [ShellRun ''adb devices'']\<rparr>)"
    by simp
  from t first u second show ?thesis by (simp add: ShellError_def n)
qed

section \<open>The connection probe\<close>

lemma execCommand_nonzero:
  assumes "shell env ''adb devices'' (world s) = (Exited d e 0, w1)"
    and "shell env c w1 = (Exited out err code, w2)" and "code \<noteq> 0"
  shows "execCommand env c s =
    (Inr (caught (ShellError code)),
     s\<lparr>trace := trace s @ [ShellRun ''adb devices'', ConsoleLog (d @ '' which adb''), ShellRun c],
       world := w2\<rparr>)"
  using assms
  by (simp add: execCommand_def execCommand_try_def try_catch_def bind_prog_def shell_throws_def
      console_log_def emit_def execCommand_catch_eq)

lemma execCommand_failed:
  assumes "shell env ''adb devices'' (world s) = (Exited d e 0, w1)"
    and "shell env c w1 = (Failed x, w2)"
  shows "execCommand env c s =
    (Inr (caught x),
     s\<lparr>trace := trace s @ [ShellRun ''adb devices'', ConsoleLog (d @ '' which adb''), ShellRun c],
       world := w2\<rparr>)"
  using assms
  by (simp add: execCommand_def execCommand_try_def try_catch_def bind_prog_def shell_throws_def
      console_log_def emit_def execCommand_catch_eq)

lemma execCommand_diagnostic_nonzero:
  assumes "shell env ''adb devices'' (world s) = (Exited d e code, w1)" and "code \<noteq> 0"
  shows "execCommand env c s =
    (Inr (caught (ShellError code)),
     s\<lparr>trace := trace s @ [ShellRun ''adb devices''], world := w1\<rparr>)"
  using assms
  by (simp add: execCommand_def execCommand_try_def try_catch_def bind_prog_def shell_throws_def
      execCommand_catch_eq)

lemma execCommand_diagnostic_failed:
  assumes "shell env ''adb devices'' (world s) = (Failed x, w1)"
  shows "execCommand env c s =
    (Inr (caught x), s\<lparr>trace := trace s @ [ShellRun ''adb devices''], world := w1\<rparr>)"
  using assms
  by (simp add: execCommand_def execCommand_try_def try_catch_def bind_prog_def shell_throws_def
      execCommand_catch_eq)

lemma nonblank_lines_empty [simp]: "nonblank_lines [] = []"
  by (simp add: nonblank_lines_def trim_def)

lemma isDeviceConnected_eq:
  assumes "execCommand env ''adb devices'' s = (Inr r, s1)"
  shows "isDeviceConnected env s =
    (Inr (exitCode r = 0 \<and> 1 < length (nonblank_lines (stdout r))),
     snd (emit (ConsoleLogLines (nonblank_lines (stdout r)))
       (snd (addToDebugLog env (''ADB devices output: '' @ stdout r) s1))))"
  using assms
  by (simp add: isDeviceConnected_def try_catch_def bind_prog_def addToDebugLog_eq emit_def
      unit_prog_def)

lemma trim_eq_Nil_iff: "trim s = [] \<longleftrightarrow> list_all is_space s"
proof -
  have rest: "(\<forall>x\<in>set (dropWhile is_space s). is_space x) \<longleftrightarrow> dropWhile is_space s = []"
    using hd_dropWhile[of is_space s]
    by (cases "dropWhile is_space s") (auto dest: set_dropWhileD)
  have "trim s = [] \<longleftrightarrow> (\<forall>x\<in>set (dropWhile is_space s). is_space x)"
    by (simp add: trim_def dropWhile_eq_Nil_conv)
  also have "\<dots> \<longleftrightarrow> dropWhile is_space s = []"
    by (rule rest)
  also have "\<dots> \<longleftrightarrow> list_all is_space s"
    by (simp add: dropWhile_eq_Nil_conv list_all_iff)
  finally show ?thesis .
qed

lemma split_newline_not_Nil [simp]: "split_newline s \<noteq> []"
  by (induction s) (auto split: list.splits)

lemma split_newline_Cons_other:
  "c \<noteq> CHR 0x0A \<Longrightarrow>
   split_newline (c # cs) = (c # hd (split_newline cs)) # tl (split_newline cs)"
  by (cases "split_newline cs") simp_all

lemma count_nonblank_from_split:
  "count_nonblank_from seen s =
     (if seen \<or> \<not> list_all is_space (hd (split_newline s)) then 1 else 0) +
     length (filter (\<lambda>l. \<not> list_all is_space l) (tl (split_newline s)))"
proof (induction s arbitrary: seen)
  case Nil
  show ?case by simp
next
  case (Cons c cs)
  show ?case
  proof (cases "c = CHR 0x0A")
    case True
    have "length (filter (\<lambda>l. \<not> list_all is_space l) (split_newline cs)) =
        (if \<not> list_all is_space (hd (split_newline cs)) then 1 else 0) +
        length (filter (\<lambda>l. \<not> list_all is_space l) (tl (split_newline cs)))"
      by (cases "split_newline cs") simp_all
    with True show ?thesis by (simp add: Cons.IH[of False])
  next
    case False
    then show ?thesis
      by (simp add: split_newline_Cons_other Cons.IH del: split_newline.simps)
  qed
qed

lemma length_nonblank_lines: "length (nonblank_lines out) = count_nonblank_lines out"
proof -
  have "length (filter (\<lambda>l. \<not> list_all is_space l) (split_newline out)) =
      (if \<not> list_all is_space (hd (split_newline out)) then 1 else 0) +
      length (filter (\<lambda>l. \<not> list_all is_space l) (tl (split_newline out)))"
    by (cases "split_newline out") simp_all
  then show ?thesis
    by (simp add: nonblank_lines_def count_nonblank_lines_def trim_eq_Nil_iff
        count_nonblank_from_split)
qed

lemma isDeviceConnected_false:
  assumes "execCommand env ''adb devices'' s = (Inr (caught e), s1)"
  shows "fst (isDeviceConnected env s) = Inr False"
  using isDeviceConnected_eq[OF assms] by (simp add: caught_def)

text \<open>
  C4: \<^verbatim>\<open>isDeviceConnected\<close> runs \<^verbatim>\<open>adb devices\<close> through \<^verbatim>\<open>execCommand\<close>, which runs the same
  command once before as its diagnostic. When both invocations end with exit code 0 and
  the second one prints \<open>out\<close>, the probe returns true if \<open>out\<close> has two or more non-blank
  lines and false if it has none or one; a line of white space only is blank. When either
  invocation ends with another exit code, or the shell layer throws, the probe returns
  false, whatever was printed.
\<close>

theorem isDeviceConnected_line_count:
  "(shell env ''adb devices'' (world s) = (Exited d e 0, w1) \<and>
    shell env ''adb devices'' w1 = (Exited out err 0, w2) \<longrightarrow>
      fst (isDeviceConnected env s) = Inr (2 \<le> count_nonblank_lines out)) \<and>
   (shell env ''adb devices'' (world s) = (Exited d e 0, w1) \<and>
    shell env ''adb devices'' w1 = (Exited out err code, w2) \<and> code \<noteq> 0 \<longrightarrow>
      fst (isDeviceConnected env s) = Inr False) \<and>
   (shell env ''adb devices'' (world s) = (Exited d e code, w1) \<and> code \<noteq> 0 \<longrightarrow>
      fst (isDeviceConnected env s) = Inr False) \<and>
   (shell env ''adb devices'' (world s) = (Exited d e 0, w1) \<and>
    shell env ''adb devices'' w1 = (Failed x, w2) \<longrightarrow>
      fst (isDeviceConnected env s) = Inr False) \<and>
   (shell env ''adb devices'' (world s) = (Failed x, w1) \<longrightarrow>
      fst (isDeviceConnected env s) = Inr False)"
proof (intro conjI impI; (elim conjE)?)
  assume "shell env ''adb devices'' (world s) = (Exited d e 0, w1)"
    and "shell env ''adb devices'' w1 = (Exited out err 0, w2)"
  from isDeviceConnected_eq[OF execCommand_ok[OF this]]
  show "fst (isDeviceConnected env s) = Inr (2 \<le> count_nonblank_lines out)"
    by (simp add: length_nonblank_lines Suc_le_eq numeral_2_eq_2)
next
  assume "shell env ''adb devices'' (world s) = (Exited d e 0, w1)"
    and "shell env ''adb devices'' w1 = (Exited out err code, w2)" and "code \<noteq> 0"
  from isDeviceConnected_false[OF execCommand_nonzero[OF this]]
  show "fst (isDeviceConnected env s) = Inr False" .
next
  assume "shell env ''adb devices'' (world s) = (Exited d e code, w1)" and "code \<noteq> 0"
  from isDeviceConnected_false[OF execCommand_diagnostic_nonzero[OF this]]
  show "fst (isDeviceConnected env s) = Inr False" .
next
  assume "shell env ''adb devices'' (world s) = (Exited d e 0, w1)"
    and "shell env ''adb devices'' w1 = (Failed x, w2)"
  from isDeviceConnected_false[OF execCommand_failed[OF this]]
  show "fst (isDeviceConnected env s) = Inr False" .
next
  assume "shell env ''adb devices'' (world s) = (Failed x, w1)"
  from isDeviceConnected_false[OF execCommand_diagnostic_failed[OF this]]
  show "fst (isDeviceConnected env s) = Inr False" .
qed

theorem isDeviceConnected_line_count_witness:
  "count_nonblank_lines
     (device_header @ ''192.168.1.20:5555'' @ [CHR 0x09] @ ''device'' @ [CHR 0x0A, CHR 0x0A]) = 2 \<and>
   fst (isDeviceConnected attached_env (initial ())) = Inr True \<and>
   count_nonblank_lines device_header = 1 \<and>
   fst (isDeviceConnected chatty_env (initial ())) = Inr False \<and>
   count_nonblank_lines (device_header @ [CHR 0x20, CHR 0x09, CHR 0x0A]) = 1 \<and>
   fst (isDeviceConnected blank_line_env (initial ())) = Inr False \<and>
   fst (isDeviceConnected broken_env (initial ())) = Inr False \<and>
   count_nonblank_lines
     (device_header @ ''192.168.1.20:5555'' @ [CHR 0x09] @ ''device'' @ [CHR 0x0A]) = 2 \<and>
   fst (isDeviceConnected failing_later_env (initial 0)) = Inr False"
proof -
  let ?two = "device_header @ ''192.168.1.20:5555'' @ [CHR 0x09] @ ''device'' @ [CHR 0x0A, CHR 0x0A]"
  let ?late = "device_header @ ''192.168.1.20:5555'' @ [CHR 0x09] @ ''device'' @ [CHR 0x0A]"
  let ?blank = "device_header @ [CHR 0x20, CHR 0x09, CHR 0x0A]"
  have n2: "count_nonblank_lines ?two = 2"
    by (simp add: count_nonblank_lines_def device_header_def is_space_def)
  have n1: "count_nonblank_lines device_header = 1"
    by (simp add: count_nonblank_lines_def device_header_def is_space_def)
  have nb: "count_nonblank_lines ?blank = 1"
    by (simp add: count_nonblank_lines_def device_header_def is_space_def)
  have nl: "count_nonblank_lines ?late = 2"
    by (simp add: count_nonblank_lines_def device_header_def is_space_def)
  have a: "shell attached_env ''adb devices'' w = (Exited ?two [] 0, ())" for w
    by (simp add: attached_env_def attached_shell_def)
  have c: "shell chatty_env ''adb devices'' w = (Exited device_header [] 0, ())" for w
    by (simp add: chatty_env_def chatty_shell_def)
  have b: "shell blank_line_env ''adb devices'' w = (Exited ?blank [] 0, ())" for w
    by (simp add: blank_line_env_def blank_line_shell_def)
  have x: "shell broken_env ''adb devices'' w = (Exited [] ''bun: command not found: adb'' 1, ())" for w
    by (simp add: broken_env_def broken_shell_def)
  have f0: "shell failing_later_env ''adb devices'' (world (initial 0)) =
      (Exited device_header [] 0, Suc 0)"
    by (simp add: failing_later_env_def)
  have f1: "shell failing_later_env ''adb devices'' (Suc 0) =
      (Exited ?late ''adb: server stopped'' 1, Suc (Suc 0))"
    by (simp add: failing_later_env_def)
  have one: "(1::int) \<noteq> 0" by simp
  from isDeviceConnected_line_count[of attached_env "initial ()" ?two "[]" "()" ?two "[]" "()"] a n2
  have r1: "fst (isDeviceConnected attached_env (initial ())) = Inr True" by simp
  from isDeviceConnected_line_count[of chatty_env "initial ()" device_header "[]" "()"
      device_header "[]" "()"] c n1
  have r2: "fst (isDeviceConnected chatty_env (initial ())) = Inr False" by simp
  from isDeviceConnected_line_count[of blank_line_env "initial ()" ?blank "[]" "()" ?blank "[]" "()"]
    b nb
  have r3: "fst (isDeviceConnected blank_line_env (initial ())) = Inr False" by simp
  from isDeviceConnected_line_count[of broken_env "initial ()" "[]"
      "''bun: command not found: adb''" "()" _ _ _ 1] x
  have r4: "fst (isDeviceConnected broken_env (initial ())) = Inr False" by simp
  from isDeviceConnected_line_count[of failing_later_env "initial 0" device_header "[]" "Suc 0"
      ?late "''adb: server stopped''" "Suc (Suc 0)" 1] f0 f1 one
  have r5: "fst (isDeviceConnected failing_later_env (initial 0)) = Inr False" by simp
  from n2 r1 n1 r2 nb r3 r4 nl r5 show ?thesis by simp
qed

section \<open>The debug logger\<close>

lemma iso_timestamp_example: "iso_timestamp ''2024-05-01T12:00:00.000Z''"
  by (simp add: iso_timestamp_def is_digit_def two_digits_def)

lemma length_clock_readings [simp]: "length (clock_readings env w n) = n"
  by (induction n arbitrary: w) simp_all

lemma list_all_clock_readings:
  "\<forall>w. P (fst (now_iso env w)) \<Longrightarrow> list_all P (clock_readings env w n)"
  by (induction n arbitrary: w) simp_all

lemma log_all_eq:
  "log_all env messages s =
     (Inr (),
      s\<lparr>debugLog := debugLog s @
           concat (map2 log_line (clock_readings env (world s) (length messages)) messages),
        trace := trace s @
           concat (map2 (\<lambda>stamp text. [FileWrite debug_log_file (log_line stamp text) 511,
                                         ConsoleLog text])
                     (clock_readings env (world s) (length messages)) messages),
        world := clock_after env (world s) (length messages)\<rparr>)"
proof (induction messages arbitrary: s)
  case Nil
  show ?case by (simp add: unit_prog_def)
next
  case (Cons m ms)
  let ?s1 = "snd (addToDebugLog env m s)"
  have step: "log_all env (m # ms) s = log_all env ms ?s1"
    by (simp add: bind_prog_def addToDebugLog_eq)
  show ?case
    unfolding step
    by (subst Cons.IH) (simp add: addToDebugLog_eq log_line_def)
qed

lemma print_debug_log_eq:
  "print_debug_log env s =
     (Inr (),
      s\<lparr>trace := trace s @
           [ConsoleLog (colorText env (CHR 0x0A # ''Debug Log:'') ''magenta''),
            ConsoleLog (debugLog s),
            ConsoleLog (colorText env saved_message ''yellow''),
            RlClose]\<rparr>)"
  by (simp add: print_debug_log_def bind_prog_def console_log_def emit_def)

text \<open>
  C7: after any sequence of calls of the debug logger, the in-memory log is the log before
  the calls followed by one line per call, in call order; the line of a call is the time
  stamp read at that call, a colon and a space, the message and a line feed. Each call
  writes that line to the log file and then echoes its message to standard output, and
  none throws. The time stamps are those of \<^verbatim>\<open>new Date().toISOString()\<close>: they are valid
  ISO 8601 time stamps because the clock of the platform gives such.
\<close>

theorem debugLog_lines_in_call_order:
  assumes "\<forall>w. iso_timestamp (fst (now_iso env w))"
  shows "fst (log_all env messages s) = Inr () \<and>
    length (clock_readings env (world s) (length messages)) = length messages \<and>
    list_all iso_timestamp (clock_readings env (world s) (length messages)) \<and>
    debugLog (snd (log_all env messages s)) =
      debugLog s @
      concat (map2 log_line (clock_readings env (world s) (length messages)) messages) \<and>
    trace (snd (log_all env messages s)) =
      trace s @
      concat (map2 (\<lambda>stamp text. [FileWrite debug_log_file (log_line stamp text) 511,
                                    ConsoleLog text])
                (clock_readings env (world s) (length messages)) messages)"
  using list_all_clock_readings[of iso_timestamp env, OF assms]
  by (subst (1 2 3) log_all_eq) simp

theorem debugLog_lines_in_call_order_witness:
  "(\<forall>w. iso_timestamp (fst (now_iso chatty_env w))) \<and>
   debugLog (snd (log_all chatty_env [''first'', ''second''] (initial ()))) =
     ''2024-05-01T12:00:00.000Z: first'' @ [CHR 0x0A] @
     ''2024-05-01T12:00:00.000Z: second'' @ [CHR 0x0A] \<and>
   trace (snd (log_all chatty_env [''first'', ''second''] (initial ()))) =
     [FileWrite ''wearos_connector_debug.log ''
        (''2024-05-01T12:00:00.000Z: first'' @ [CHR 0x0A]) 511,
      ConsoleLog ''first'',
      FileWrite ''wearos_connector_debug.log ''
        (''2024-05-01T12:00:00.000Z: second'' @ [CHR 0x0A]) 511,
      ConsoleLog ''second'']"
proof -
  have clock: "\<forall>w. iso_timestamp (fst (now_iso chatty_env w))"
    by (simp add: chatty_env_def fixed_env_def iso_timestamp_example)
  have two: "length [''first'', ''second''] = Suc (Suc 0)" by simp
  from debugLog_lines_in_call_order[OF clock, of "[''first'', ''second'']" "initial ()"] clock
  show ?thesis
    unfolding two
    by (simp add: chatty_env_def fixed_env_def log_line_def initial_def debug_log_file_def)
qed

text \<open>
  C10: every call of the debug logger hands its line to \<^verbatim>\<open>Bun.write\<close> under the path
  \<^verbatim>\<open>"wearos_connector_debug.log "\<close>, the announced name followed by a space; the last message
  of \<^verbatim>\<open>main\<close> announces the log under the name \<^verbatim>\<open>wearos_connector_debug.log\<close>, and the two
  paths differ.
\<close>

theorem debug_log_file_has_trailing_space:
  "trace (snd (addToDebugLog env text s)) =
     trace s @
     [FileWrite (''wearos_connector_debug.log'' @ '' '')
        (fst (now_iso env (world s)) @ '': '' @ text @ [CHR 0x0A]) 511,
      ConsoleLog text] \<and>
   trace (snd (print_debug_log env s)) =
     trace s @
     [ConsoleLog (colorText env (CHR 0x0A # ''Debug Log:'') ''magenta''),
      ConsoleLog (debugLog s),
      ConsoleLog (colorText env
        (CHR 0x0A # ''Full debug log has been saved to '' @ ''wearos_connector_debug.log'')
        ''yellow''),
      RlClose] \<and>
   debug_log_file = ''wearos_connector_debug.log'' @ '' '' \<and>
   debug_log_file \<noteq> ''wearos_connector_debug.log''"
  by (simp add: addToDebugLog_eq print_debug_log_eq debug_log_file_def saved_message_def)

section \<open>The tool locator\<close>

lemma file_probes_append [simp]: "file_probes (xs @ ys) = file_probes xs @ file_probes ys"
  by (induction xs rule: file_probes.induct) simp_all

lemma file_probes_map_FileSize [simp]: "file_probes (map FileSize paths) = paths"
  by (induction paths) simp_all

lemma first_existing_eq:
  "first_existing env paths s =
     (Inr (first_nonempty_file env (world s) paths),
      s\<lparr>trace := trace s @ map FileSize (probed env (world s) paths)\<rparr>)"
proof (induction paths arbitrary: s)
  case Nil
  show ?case by (simp add: unit_prog_def first_nonempty_file_def)
next
  case (Cons p ps)
  show ?case
    by (simp add: bind_prog_def fileExists_def unit_prog_def Cons.IH first_nonempty_file_def)
qed

lemma findAdbPath_eq:
  assumes "execCommand env ''which adb'' s = (Inr r, s1)"
  shows "findAdbPath env s =
    (if exitCode r = 0 \<and> trim (stdout r) \<noteq> [] then
       (Inr (JsString (trim (stdout r))), s1\<lparr>trace := trace s1 @ [ConsoleLog (stdout r)]\<rparr>)
     else
       (Inr (first_nonempty_file env (world s1) (commonPaths env)),
        s1\<lparr>trace := trace s1 @ [ConsoleLog (stdout r)] @
                        map FileSize (probed env (world s1) (commonPaths env))\<rparr>))"
  using assms
  by (simp add: findAdbPath_def try_catch_def bind_prog_def console_log_def emit_def
      unit_prog_def first_existing_eq)

lemma execCommand_new_events:
  assumes "execCommand env c s = (Inr r, s1)"
  obtains evs where "trace s1 = trace s @ evs" "file_probes evs = []"
proof -
  obtain r' evs w' where
    "execCommand env c s = (Inr r', s\<lparr>trace := trace s @ evs, world := w'\<rparr>)"
    "file_probes evs = []"
    by (rule execCommand_total)
  with assms show ?thesis by (intro that[of evs]) auto
qed

text \<open>
  C5: let \<open>r\<close> be what \<^verbatim>\<open>execCommand("which adb")\<close> returns. If its \<^verbatim>\<open>exitCode\<close> is 0 and its
  trimmed \<^verbatim>\<open>stdout\<close> is not empty, \<^verbatim>\<open>findAdbPath\<close> returns exactly the trimmed \<^verbatim>\<open>stdout\<close> and
  reads no file size. Otherwise it returns the first path of the fixed list
  \<^verbatim>\<open>commonPaths\<close> whose file size is above zero, reading the sizes in the order of the list up
  to that path, and \<^verbatim>\<open>null\<close> when no path of the list qualifies. The \<^verbatim>\<open>exitCode\<close> of \<open>r\<close> is
  0 when \<^verbatim>\<open>which adb\<close> was invoked and exited with 0: in that case the result is the
  trimmed output of \<^verbatim>\<open>which\<close>.
\<close>

theorem findAdbPath_which_then_fallback:
  assumes "execCommand env ''which adb'' s = (Inr r, s1)"
  shows
    "(exitCode r = 0 \<and> trim (stdout r) \<noteq> [] \<longrightarrow>
        fst (findAdbPath env s) = Inr (JsString (trim (stdout r))) \<and>
        file_probes (new_events s (snd (findAdbPath env s))) = []) \<and>
     (\<not> (exitCode r = 0 \<and> trim (stdout r) \<noteq> []) \<longrightarrow>
        fst (findAdbPath env s) = Inr (first_nonempty_file env (world s1) (commonPaths env)) \<and>
        file_probes (new_events s (snd (findAdbPath env s))) =
          probed env (world s1) (commonPaths env)) \<and>
     (\<forall>d e w1 out err w2.
        shell env ''adb devices'' (world s) = (Exited d e 0, w1) \<and>
        shell env ''which adb'' w1 = (Exited out err 0, w2) \<and> trim out \<noteq> [] \<longrightarrow>
        fst (findAdbPath env s) = Inr (JsString (trim out)))"
proof -
  from assms obtain evs where evs: "trace s1 = trace s @ evs" "file_probes evs = []"
    by (rule execCommand_new_events)
  have shell_level: "fst (findAdbPath env s) = Inr (JsString (trim out))"
    if "shell env ''adb devices'' (world s) = (Exited d e 0, w1)"
      and "shell env ''which adb'' w1 = (Exited out err 0, w2)" and "trim out \<noteq> []"
    for d e w1 out err w2
    using findAdbPath_eq[OF execCommand_ok[OF that(1,2)]] that(3) by simp
  show ?thesis
    using evs shell_level by (simp add: findAdbPath_eq[OF assms] new_events_def)
qed

theorem findAdbPath_which_then_fallback_witness:
  "fst (findAdbPath attached_env (initial ())) = Inr (JsString ''/usr/bin/adb'') \<and>
   file_probes (new_events (initial ()) (snd (findAdbPath attached_env (initial ())))) = [] \<and>
   fst (findAdbPath fallback_env (initial ())) =
     Inr (JsString ''/home/user/Android/Sdk/platform-tools/adb'') \<and>
   file_probes (new_events (initial ()) (snd (findAdbPath fallback_env (initial ())))) =
     [''/usr/local/bin/adb'', ''/opt/homebrew/bin/adb'',
      ''/home/user/Library/Android/sdk/platform-tools/adb'',
      ''/home/user/Android/Sdk/platform-tools/adb'']"
proof -
  let ?out = "device_header @ ''192.168.1.20:5555'' @ [CHR 0x09] @ ''device'' @ [CHR 0x0A, CHR 0x0A]"
  have d: "shell attached_env ''adb devices'' (world (initial ())) = (Exited ?out [] 0, ())"
    by (simp add: attached_env_def attached_shell_def)
  have w: "shell attached_env ''which adb'' () = (Exited (''/usr/bin/adb'' @ [CHR 0x0A]) [] 0, ())"
    by (simp add: attached_env_def attached_shell_def)
  have t: "trim (''/usr/bin/adb'' @ [CHR 0x0A]) = ''/usr/bin/adb''"
    by (simp add: trim_def is_space_def)
  have found: "fst (findAdbPath attached_env (initial ())) = Inr (JsString ''/usr/bin/adb'') \<and>
      file_probes (new_events (initial ()) (snd (findAdbPath attached_env (initial ())))) = []"
    using findAdbPath_which_then_fallback[OF execCommand_ok[OF d w]] t by simp
  have b: "shell fallback_env ''adb devices'' (world (initial ())) =
      (Exited [] ''bun: command not found: adb'' 1, ())"
    by (simp add: fallback_env_def broken_shell_def)
  have paths: "commonPaths fallback_env =
      [''/usr/local/bin/adb'', ''/opt/homebrew/bin/adb'',
       ''/home/user/Library/Android/sdk/platform-tools/adb'',
       ''/home/user/Android/Sdk/platform-tools/adb'', ''/usr/bin/adb'']"
    by (simp add: commonPaths_def fallback_env_def fixed_env_def)
  have size: "file_size fallback_env p w = sdk_only p" for p w
    by (simp add: fallback_env_def fixed_env_def)
  have first: "first_nonempty_file fallback_env w (commonPaths fallback_env) =
      JsString ''/home/user/Android/Sdk/platform-tools/adb''" for w
    unfolding paths by (simp add: first_nonempty_file_def size sdk_only_def)
  have probes: "probed fallback_env w (commonPaths fallback_env) =
      [''/usr/local/bin/adb'', ''/opt/homebrew/bin/adb'',
       ''/home/user/Library/Android/sdk/platform-tools/adb'',
       ''/home/user/Android/Sdk/platform-tools/adb'']" for w
    unfolding paths by (simp add: size sdk_only_def)
  have fallback: "fst (findAdbPath fallback_env (initial ())) =
        Inr (JsString ''/home/user/Android/Sdk/platform-tools/adb'') \<and>
      file_probes (new_events (initial ()) (snd (findAdbPath fallback_env (initial ())))) =
        [''/usr/local/bin/adb'', ''/opt/homebrew/bin/adb'',
         ''/home/user/Library/Android/sdk/platform-tools/adb'',
         ''/home/user/Android/Sdk/platform-tools/adb'']"
    using findAdbPath_which_then_fallback[OF execCommand_diagnostic_nonzero[OF b, of "''which adb''"]]
    by (simp add: caught_def first probes)
  from found fallback show ?thesis by simp
qed

section \<open>Two runs in which the script departs from its specification\<close>

lemma number_to_string_1 [simp]: "number_to_string 1 = ''1''"
  by (simp add: number_to_string_def digits_of.simps digit_char_def)

lemma number_to_string_0 [simp]: "number_to_string 0 = ''0''"
  by (simp add: number_to_string_def digits_of.simps digit_char_def)

lemmas script_defs =
  main_def main_connected_def main_not_connected_def bind_prog_def try_catch_def unit_prog_def console_log_def console_error_def emit_def
  findAdbPath_def execCommand_def execCommand_try_def execCommand_catch_def shell_throws_def
  fixed_env_def initial_def isDeviceConnected_def addToDebugLog_def question_def
  nonblank_lines_def trim_def is_space_def device_header_def
  getInstalledApps_def getInstalledApps_try_def getInstalledApps_catch_def
  getStorageInfo_def getStorageInfo_try_def getStorageInfo_catch_def
  pairDevice_def connectDevice_def pair_command_def connect_command_def
  print_debug_log_def colorText_def ShellError_def Let_def

text \<open>
  C1 says that in the not-connected flow a pair command with a non-zero exit code makes
  \<^verbatim>\<open>pairDevice\<close> print the error, and that the connect routine is not invoked afterwards.
  The first half holds, and \<^verbatim>\<open>pairDevice\<close> itself calls \<^verbatim>\<open>connectDevice\<close> only after exit
  code 0. But \<^verbatim>\<open>main\<close> calls \<^verbatim>\<open>connectDevice\<close> after \<^verbatim>\<open>pairDevice\<close> whatever the pairing gave:
  in this run \<^verbatim>\<open>adb pair\<close> ends with exit code 1, the error is printed, and \<^verbatim>\<open>adb connect\<close>
  is run next.
\<close>

theorem main_connects_after_failed_pairing:
  "commands_and_errors (trace (snd (main unpaired_env (initial ())))) =
     [ShellRun ''adb devices'', ShellRun ''which adb'',
      ShellRun ''adb devices'', ShellRun ''adb devices'',
      ShellRun ''adb devices'', ShellRun ''adb pair 192.168.1.20:37000 123456'',
      ConsoleError ''<red>Pairing failed: ShellError: Failed with exit code 1<reset>'',
      ShellRun ''adb devices'', ShellRun ''adb connect 192.168.1.20:37000'',
      ConsoleError ''<red>Connection failed: ShellError: Failed with exit code 1<reset>'']"
  by (simp add: script_defs unpaired_env_def unpaired_shell_def typed_answers_def)

text \<open>
  C3 says that the installed-apps and storage-info routines print the offline hint when
  the error text of a failing command contains \<^verbatim>\<open>device offline\<close>. The hint is printed in
  the \<^verbatim>\<open>catch\<close> clause of the two routines, and \<^verbatim>\<open>execCommand\<close> never throws, so the clause is
  never entered (\<open>getInstalledApps_no_catch\<close>, \<open>getStorageInfo_no_catch\<close>). In this run
  the error of the package listing passes the test of the \<^verbatim>\<open>catch\<close> clause, and what is
  printed is the failure message with the raw error; the same for \<^verbatim>\<open>df\<close>.
\<close>

theorem offline_hint_is_not_printed:
  "instanceof_Error (JsError ''Error'' ''adb: device offline'') \<and>
   str_includes (error_message (JsError ''Error'' ''adb: device offline'')) ''device offline'' \<and>
   commands_and_errors
     (trace (snd (getInstalledApps offline_env ((initial ())\<lparr>adbPath := JsString ''/usr/bin/adb''\<rparr>)))) =
     [ShellRun ''adb devices'', ShellRun ''/usr/bin/adb shell pm list packages'',
      ConsoleError ''<red>Failed to get installed apps: Error: adb: device offline<reset>''] \<and>
   commands_and_errors
     (trace (snd (getStorageInfo offline_env ((initial ())\<lparr>adbPath := JsString ''/usr/bin/adb''\<rparr>)))) =
     [ShellRun ''adb devices'', ShellRun ''/usr/bin/adb shell df'',
      ConsoleError ''<red>Failed to get storage info: ShellError: Failed with exit code 1<reset>'']"
  by (simp add: script_defs offline_env_def offline_shell_def)

section \<open>The orchestrator\<close>

lemma first_nonempty_file_cases:
  "first_nonempty_file env w paths = JsNull \<or>
   (\<exists>p. p \<in> set paths \<and> first_nonempty_file env w paths = JsString p)"
  by (auto simp: first_nonempty_file_def find_Some_iff split: option.splits)

lemma findAdbPath_truthy:
  assumes "findAdbPath env s = (Inr found, s1)" and "found \<noteq> JsNull" and "join_never_empty env"
  shows "truthy found"
proof -
  obtain r evs w' where
    "execCommand env ''which adb'' s = (Inr r, s\<lparr>trace := trace s @ evs, world := w'\<rparr>)"
    by (rule execCommand_total)
  note eq = findAdbPath_eq[OF this]
  show ?thesis
  proof (cases "exitCode r = 0 \<and> trim (stdout r) \<noteq> []")
    case True
    with eq assms(1) show ?thesis by auto
  next
    case False
    with eq assms(1) have "found = first_nonempty_file env w' (commonPaths env)" by auto
    with assms(2) first_nonempty_file_cases[of env w' "commonPaths env"]
    obtain p where "p \<in> set (commonPaths env)" "found = JsString p" by auto
    with assms(3) show ?thesis by (auto simp: commonPaths_def join_never_empty_def)
  qed
qed

lemma returns_of_completes:
  assumes "completes cs m s"
  obtains a s' where "m s = (Inr a, s')"
  using assms by (rule completesE)

lemma main_connected_returns: "\<exists>s'. main_connected env s = (Inr (), s')"
proof -
  have "completes [''adb devices'', to_string (adbPath s) @ '' shell pm list packages'',
      to_string (adbPath s) @ '' shell df''] (main_connected env) s"
    unfolding main_connected_def
    apply (rule completes_bind[OF completes_console_log])
    apply (rule completes_bind[OF completes_getInstalledApps])
     apply simp
    apply (rule completes_getStorageInfo)
    apply simp
    done
  then show ?thesis by (rule returns_of_completes) simp
qed

lemma question_cases:
  obtains (answered) a s' where "question env query s = (Inr a, s')"
  | (thrown) e s' where "question env query s = (Inl (Throw e), s')"
      "fst (read_line env query (world s)) = Inl e"
proof (cases "read_line env query (world s)")
  case (Pair r w')
  show ?thesis
  proof (cases r)
    case (Inl e)
    with Pair show ?thesis by (intro thrown[of e]) (simp_all add: question_def)
  next
    case (Inr a)
    with Pair show ?thesis by (intro answered[of a]) (simp add: question_def)
  qed
qed

lemma main_not_connected_cases:
  "(\<exists>s'. main_not_connected env s = (Inr (), s')) \<or>
   (\<exists>e s' query w. main_not_connected env s = (Inl (Throw e), s') \<and>
      fst (read_line env query w) = Inl e)"
proof -
  let ?s0 = "s\<lparr>trace := trace s @
      [ConsoleLog (colorText env ''No device connected. Let's connect one.'' ''yellow'')]\<rparr>"
  have start: "console_log (colorText env ''No device connected. Let's connect one.'' ''yellow'') s
      = (Inr (), ?s0)"
    by (simp add: console_log_def emit_def)
  show ?thesis
  proof (cases rule: question_cases[of env "''Enter IP Address: ''" ?s0])
    case (thrown e s')
    then have "main_not_connected env s = (Inl (Throw e), s')"
      by (simp add: main_not_connected_def bind_prog_def console_log_def emit_def)
    with thrown(2) show ?thesis by blast
  next
    case ip: (answered ip s1)
    show ?thesis
    proof (cases rule: question_cases[of env "''Enter Port: ''" s1])
      case (thrown e s')
      with ip have "main_not_connected env s = (Inl (Throw e), s')"
        by (simp add: main_not_connected_def bind_prog_def console_log_def emit_def)
      with thrown(2) show ?thesis by blast
    next
      case port: (answered port s2)
      show ?thesis
      proof (cases rule: question_cases[of env "''Enter Pair Code: ''" s2])
        case (thrown e s')
        with ip port have "main_not_connected env s = (Inl (Throw e), s')"
          by (simp add: main_not_connected_def bind_prog_def console_log_def emit_def)
        with thrown(2) show ?thesis by blast
      next
        case code: (answered code s3)
        obtain u s4 where pair: "pairDevice env ip port code s3 = (Inr u, s4)"
          by (rule returns_of_completes[OF completes_pairDevice[OF subset_refl]])
        obtain v s5 where conn: "connectDevice env ip port s4 = (Inr v, s5)"
          by (rule returns_of_completes[OF completes_connectDevice[OF subset_refl]])
        from ip port code pair conn have "main_not_connected env s = (Inr (), s5)"
          by (simp add: main_not_connected_def bind_prog_def console_log_def emit_def)
        then show ?thesis by blast
      qed
    qed
  qed
qed

lemma main_after_locator:
  assumes "findAdbPath env (snd (console_log (colorText env ''WearOS Connector'' ''cyan'') s)) =
             (Inr found, s1)"
    and "truthy found"
  obtains b s3 where
    "isDeviceConnected env
       (snd (console_log (colorText env (''ADB found at: '' @ to_string found) ''green'')
              (s1\<lparr>adbPath := found\<rparr>))) = (Inr b, s3)"
    "main env s =
       bind_prog (if b then main_connected env else main_not_connected env)
         (\<lambda>_. print_debug_log env) s3"
proof -
  let ?s2 = "snd (console_log (colorText env (''ADB found at: '' @ to_string found) ''green'')
                (s1\<lparr>adbPath := found\<rparr>))"
  obtain b s3 where probe: "isDeviceConnected env ?s2 = (Inr b, s3)"
    by (rule returns_of_completes[OF completes_isDeviceConnected])
  have "main env s =
       bind_prog (if b then main_connected env else main_not_connected env)
         (\<lambda>_. print_debug_log env) s3"
    using assms probe
    by (simp add: main_def bind_prog_def console_log_def emit_def unit_prog_def)
  with probe show ?thesis by (rule that)
qed

text \<open>
  C8, as the specification words it: in every run in which the tool locator returns a path
  and not \<^verbatim>\<open>null\<close>, \<^verbatim>\<open>main\<close> reaches its last step, the printing of the debug log. The three
  prompts of \<^verbatim>\<open>main\<close> are outside every \<^verbatim>\<open>try\<close>, and \<^verbatim>\<open>main()\<close> is called bare: in this run
  the locator returns \<^verbatim>\<open>/usr/bin/adb\<close>, no device is attached, the first prompt throws, and
  \<^verbatim>\<open>main\<close> ends with that exception without printing the heading of the debug log.
\<close>

theorem main_stops_at_closed_prompt_counterexample:
  "fst (findAdbPath closed_input_env
         (snd (console_log (colorText closed_input_env ''WearOS Connector'' ''cyan'')
                (initial ())))) =
     Inr (JsString ''/usr/bin/adb'') \<and>
   fst (main closed_input_env (initial ())) =
     Inl (Throw (JsError ''Error'' ''readline was closed'')) \<and>
   ConsoleLog (colorText closed_input_env (CHR 0x0A # ''Debug Log:'') ''magenta'')
     \<notin> set (trace (snd (main closed_input_env (initial ()))))"
  by (simp add: script_defs closed_input_env_def unpaired_env_def unpaired_shell_def)

text \<open>
  C8, amended: in every run in which the tool locator, called after the banner is printed,
  returns a path and not \<^verbatim>\<open>null\<close>, no failure of the probe, of pairing, of connecting or of
  the two information routines reaches \<^verbatim>\<open>main\<close>. Either \<^verbatim>\<open>main\<close> returns normally, and its
  last effects are the debug log heading, the accumulated debug log, the message about the
  saved log and the closing of the prompt interface; or it is cut short by a value that
  one of its prompts has thrown. When every prompt is answered, \<^verbatim>\<open>main\<close> always reaches
  that last step. The test in \<^verbatim>\<open>main\<close> is \<^verbatim>\<open>!adbPath\<close>, which the empty string passes as
  \<^verbatim>\<open>null\<close> does; a path that the locator returns is not empty because \<^verbatim>\<open>path.join\<close> never
  returns the empty string, which is the third hypothesis.
\<close>

theorem main_reaches_debug_log:
  assumes "findAdbPath env (snd (console_log (colorText env ''WearOS Connector'' ''cyan'') s)) =
             (Inr found, s1)"
    and "found \<noteq> JsNull"
    and "join_never_empty env"
  shows
    "((\<exists>s2. main env s =
         (Inr (),
          s2\<lparr>trace := trace s2 @
               [ConsoleLog (colorText env (CHR 0x0A # ''Debug Log:'') ''magenta''),
                ConsoleLog (debugLog s2),
                ConsoleLog (colorText env saved_message ''yellow''),
                RlClose]\<rparr>)) \<or>
      (\<exists>e s2 query w. main env s = (Inl (Throw e), s2) \<and>
         fst (read_line env query w) = Inl e)) \<and>
     ((\<forall>query w. \<exists>answer w'. read_line env query w = (Inr answer, w')) \<longrightarrow>
      (\<exists>s2. main env s =
         (Inr (),
          s2\<lparr>trace := trace s2 @
               [ConsoleLog (colorText env (CHR 0x0A # ''Debug Log:'') ''magenta''),
                ConsoleLog (debugLog s2),
                ConsoleLog (colorText env saved_message ''yellow''),
                RlClose]\<rparr>)))"
proof -
  have t: "truthy found" by (rule findAdbPath_truthy[OF assms])
  obtain b s3 where run: "main env s =
       bind_prog (if b then main_connected env else main_not_connected env)
         (\<lambda>_. print_debug_log env) s3"
    using main_after_locator[OF assms(1) t] by blast
  have finished: "\<exists>s2. main env s =
         (Inr (),
          s2\<lparr>trace := trace s2 @
               [ConsoleLog (colorText env (CHR 0x0A # ''Debug Log:'') ''magenta''),
                ConsoleLog (debugLog s2),
                ConsoleLog (colorText env saved_message ''yellow''),
                RlClose]\<rparr>)"
    if "(if b then main_connected env else main_not_connected env) s3 = (Inr (), s4)" for s4
  proof -
    have "main env s = print_debug_log env s4"
      using run that by (simp add: bind_prog_def)
    then show ?thesis
      unfolding print_debug_log_eq by blast
  qed
  have cases: "(\<exists>s4. (if b then main_connected env else main_not_connected env) s3 = (Inr (), s4)) \<or>
      (\<exists>e s4 query w.
         (if b then main_connected env else main_not_connected env) s3 = (Inl (Throw e), s4) \<and>
         fst (read_line env query w) = Inl e)"
    using main_connected_returns[of env s3] main_not_connected_cases[of env s3]
    by (cases b) auto
  have first: "(\<exists>s2. main env s =
         (Inr (),
          s2\<lparr>trace := trace s2 @
               [ConsoleLog (colorText env (CHR 0x0A # ''Debug Log:'') ''magenta''),
                ConsoleLog (debugLog s2),
                ConsoleLog (colorText env saved_message ''yellow''),
                RlClose]\<rparr>)) \<or>
      (\<exists>e s2 query w. main env s = (Inl (Throw e), s2) \<and>
         fst (read_line env query w) = Inl e)"
  proof -
    from cases show ?thesis
    proof
      assume "\<exists>s4. (if b then main_connected env else main_not_connected env) s3 = (Inr (), s4)"
      then show ?thesis using finished by blast
    next
      assume "\<exists>e s4 query w.
         (if b then main_connected env else main_not_connected env) s3 = (Inl (Throw e), s4) \<and>
         fst (read_line env query w) = Inl e"
      then obtain e s4 query w where
        thrown: "(if b then main_connected env else main_not_connected env) s3 = (Inl (Throw e), s4)"
        and prompt: "fst (read_line env query w) = Inl e"
        by blast
      from run thrown have "main env s = (Inl (Throw e), s4)"
        by (simp add: bind_prog_def)
      with prompt show ?thesis by blast
    qed
  qed
  have second: "\<exists>s2. main env s =
         (Inr (),
          s2\<lparr>trace := trace s2 @
               [ConsoleLog (colorText env (CHR 0x0A # ''Debug Log:'') ''magenta''),
                ConsoleLog (debugLog s2),
                ConsoleLog (colorText env saved_message ''yellow''),
                RlClose]\<rparr>)"
    if answered: "\<forall>query w. \<exists>answer w'. read_line env query w = (Inr answer, w')"
  proof -
    have "fst (read_line env query w) \<noteq> Inl e" for query w e
      using answered by (metis Inl_Inr_False fst_conv)
    with first show ?thesis by blast
  qed
  from first second show ?thesis by blast
qed

theorem main_reaches_debug_log_witness:
  "fst (findAdbPath unpaired_env
         (snd (console_log (colorText unpaired_env ''WearOS Connector'' ''cyan'') (initial ())))) =
     Inr (JsString ''/usr/bin/adb'') \<and>
   join_never_empty unpaired_env \<and>
   (\<forall>query w. \<exists>answer w'. read_line unpaired_env query w = (Inr answer, w')) \<and>
   fst (main unpaired_env (initial ())) = Inr ()"
proof -
  let ?s0 = "snd (console_log (colorText unpaired_env ''WearOS Connector'' ''cyan'') (initial ()))"
  have d: "shell unpaired_env ''adb devices'' (world ?s0) = (Exited device_header [] 0, ())"
    by (simp add: unpaired_env_def unpaired_shell_def)
  have w: "shell unpaired_env ''which adb'' () = (Exited (''/usr/bin/adb'' @ [CHR 0x0A]) [] 0, ())"
    by (simp add: unpaired_env_def unpaired_shell_def)
  have t: "trim (''/usr/bin/adb'' @ [CHR 0x0A]) = ''/usr/bin/adb''"
    by (simp add: trim_def is_space_def)
  have found: "fst (findAdbPath unpaired_env ?s0) = Inr (JsString ''/usr/bin/adb'')"
    using findAdbPath_eq[OF execCommand_ok[OF d w]] t by simp
  then have loc: "findAdbPath unpaired_env ?s0 =
      (Inr (JsString ''/usr/bin/adb''), snd (findAdbPath unpaired_env ?s0))"
    by (metis prod.collapse)
  have j: "join_never_empty unpaired_env"
    by (simp add: join_never_empty_def unpaired_env_def fixed_env_def)
  have a: "\<forall>query w. \<exists>answer w'. read_line unpaired_env query w = (Inr answer, w')"
    by (simp add: unpaired_env_def fixed_env_def)
  from main_reaches_debug_log[OF loc _ j] a have "fst (main unpaired_env (initial ())) = Inr ()"
    by auto
  with found j a show ?thesis by simp
qed

section \<open>The command strings\<close>

lemma issuesI:
  "m s = (Inr a, s') \<Longrightarrow> adbPath s' = adbPath s \<Longrightarrow> trace s' = trace s @ evs \<Longrightarrow>
   ShellRun c \<in> set evs \<Longrightarrow> issues c m s"
  by (simp add: issues_def new_events_def)

lemma issuesE:
  assumes "issues c m s"
  obtains a s' evs where "m s = (Inr a, s')" "adbPath s' = adbPath s"
    "trace s' = trace s @ evs" "ShellRun c \<in> set evs"
proof (cases "m s")
  case (Pair r s')
  with assms obtain a where a: "r = Inr a"
    by (cases r) (simp_all add: issues_def)
  from assms Pair a have p: "adbPath s' = adbPath s"
    and t: "take (length (trace s)) (trace s') = trace s"
    and l: "ShellRun c \<in> set (new_events s s')"
    by (simp_all add: issues_def)
  have "trace s' = trace s @ new_events s s'"
    using t by (metis append_take_drop_id new_events_def)
  with Pair a p l show ?thesis by (intro that) auto
qed

lemma issues_bind_first:
  assumes "issues c m s"
    and "\<And>a s'. m s = (Inr a, s') \<Longrightarrow> adbPath s' = adbPath s \<Longrightarrow> completes cs (f a) s'"
  shows "issues c (bind_prog m f) s"
proof -
  from assms(1) obtain a s' evs where m: "m s = (Inr a, s')" "adbPath s' = adbPath s"
    "trace s' = trace s @ evs" "ShellRun c \<in> set evs"
    by (rule issuesE)
  from assms(2)[OF m(1,2)] obtain b s'' evs' where f: "f a s' = (Inr b, s'')"
    "adbPath s'' = adbPath s'" "trace s'' = trace s' @ evs'"
    by (rule completesE)
  show ?thesis
  proof (rule issuesI)
    show "bind_prog m f s = (Inr b, s'')" using m(1) f(1) by (simp add: bind_prog_def)
    show "adbPath s'' = adbPath s" using m(2) f(2) by simp
    show "trace s'' = trace s @ (evs @ evs')" using m(3) f(3) by simp
    show "ShellRun c \<in> set (evs @ evs')" using m(4) by simp
  qed
qed

lemma issues_bind_second:
  assumes "completes cs m s"
    and "\<And>a s'. m s = (Inr a, s') \<Longrightarrow> adbPath s' = adbPath s \<Longrightarrow> issues c (f a) s'"
  shows "issues c (bind_prog m f) s"
proof -
  from assms(1) obtain a s' evs where m: "m s = (Inr a, s')" "adbPath s' = adbPath s"
    "trace s' = trace s @ evs"
    by (rule completesE)
  from assms(2)[OF m(1,2)] obtain b s'' evs' where f: "f a s' = (Inr b, s'')"
    "adbPath s'' = adbPath s'" "trace s'' = trace s' @ evs'" "ShellRun c \<in> set evs'"
    by (rule issuesE)
  show ?thesis
  proof (rule issuesI)
    show "bind_prog m f s = (Inr b, s'')" using m(1) f(1) by (simp add: bind_prog_def)
    show "adbPath s'' = adbPath s" using m(2) f(2) by simp
    show "trace s'' = trace s @ (evs @ evs')" using m(3) f(3) by simp
    show "ShellRun c \<in> set (evs @ evs')" using f(4) by simp
  qed
qed

lemma issues_try_catch:
  assumes "issues c m s"
  shows "issues c (try_catch m h) s"
proof -
  from assms obtain a s' evs where "m s = (Inr a, s')"
    by (rule issuesE)
  then have "try_catch m h s = m s" by (simp add: try_catch_def)
  with assms show ?thesis by (simp add: issues_def)
qed

lemma issues_execCommand:
  assumes "diagnostic_ok env (world s)"
  shows "issues c (execCommand env c) s"
proof -
  obtain oc w1 where sh: "shell env ''adb devices'' (world s) = (oc, w1)"
    by (cases "shell env ''adb devices'' (world s)")
  with assms obtain d e where d: "shell env ''adb devices'' (world s) = (Exited d e 0, w1)"
    by (cases oc) (auto simp: diagnostic_ok_def)
  obtain oc2 w2 where c: "shell env c w1 = (oc2, w2)"
    by (cases "shell env c w1")
  show ?thesis
  proof (cases oc2)
    case (Exited out err code)
    show ?thesis
    proof (cases "code = 0")
      case True
      with c Exited have "shell env c w1 = (Exited out err 0, w2)" by simp
      from execCommand_ok[OF d this] show ?thesis
        by (simp add: issues_def new_events_def)
    next
      case False
      from c Exited have "shell env c w1 = (Exited out err code, w2)" by simp
      from execCommand_nonzero[OF d this False] show ?thesis
        by (simp add: issues_def new_events_def)
    qed
  next
    case (Failed x)
    with c have "shell env c w1 = (Failed x, w2)" by simp
    from execCommand_failed[OF d this] show ?thesis
      by (simp add: issues_def new_events_def)
  qed
qed

lemma issues_same_run: "m s = n s \<Longrightarrow> issues c n s \<Longrightarrow> issues c m s"
  by (simp add: issues_def)

lemma issues_getInstalledApps:
  assumes "\<forall>w. diagnostic_ok env w"
  shows "issues (to_string (adbPath s) @ '' shell pm list packages'') (getInstalledApps env) s"
proof -
  let ?c = "to_string (adbPath s) @ '' shell pm list packages''"
  let ?rest = "\<lambda>r. if exitCode r = 0 then
          bind_prog (console_log (colorText env ''Installed Apps:'' ''blue'')) (\<lambda>_.
          console_log (stdout r))
        else
          console_error
            (colorText env (''Failed to get installed apps: '' @ to_string (stderr r)) ''red'')"
  have "issues ?c (bind_prog (execCommand env ?c) ?rest) s"
    apply (rule issues_bind_first[OF issues_execCommand, where cs = "[]"])
     apply (simp add: assms)
    apply (rule completes_if)
     apply (rule completes_bind[OF completes_console_log])
     apply (rule completes_console_log)
    apply (rule completes_console_error)
    done
  then have "issues ?c (getInstalledApps_try env) s"
    by (rule issues_same_run[rotated]) (simp add: getInstalledApps_try_def bind_prog_def)
  then show ?thesis
    unfolding getInstalledApps_def by (rule issues_try_catch)
qed

lemma issues_getStorageInfo:
  assumes "\<forall>w. diagnostic_ok env w"
  shows "issues (to_string (adbPath s) @ '' shell df'') (getStorageInfo env) s"
proof -
  let ?c = "to_string (adbPath s) @ '' shell df''"
  let ?rest = "\<lambda>r. if exitCode r = 0 then
          bind_prog (console_log (colorText env ''Storage Info:'' ''blue'')) (\<lambda>_.
          console_log (stdout r))
        else
          console_error
            (colorText env (''Failed to get storage info: '' @ to_string (stderr r)) ''red'')"
  have "issues ?c (bind_prog (execCommand env ?c) ?rest) s"
    apply (rule issues_bind_first[OF issues_execCommand, where cs = "[]"])
     apply (simp add: assms)
    apply (rule completes_if)
     apply (rule completes_bind[OF completes_console_log])
     apply (rule completes_console_log)
    apply (rule completes_console_error)
    done
  then have "issues ?c (getStorageInfo_try env) s"
    by (rule issues_same_run[rotated]) (simp add: getStorageInfo_try_def bind_prog_def)
  then show ?thesis
    unfolding getStorageInfo_def by (rule issues_try_catch)
qed

lemma issues_connectDevice:
  assumes "\<forall>w. diagnostic_ok env w"
  shows "issues (connect_command ip port) (connectDevice env ip port) s"
  unfolding connectDevice_def
  apply (rule issues_try_catch)
  apply (rule issues_bind_second[OF completes_addToDebugLog[where cs = "[]"]])
  apply (rule issues_bind_first[OF issues_execCommand,
        where cs = "connect_commands (adbPath s) ip port"])
   apply (simp add: assms)
  apply (rule completes_bind[OF completes_addToDebugLog])
  apply (rule completes_bind[OF completes_addToDebugLog])
  apply (rule completes_bind[OF completes_addToDebugLog])
  apply (rule completes_if)
   apply (rule completes_bind[OF completes_console_log])
   apply (rule completes_bind[OF completes_getInstalledApps])
    apply (simp add: connect_commands_def)
   apply (rule completes_getStorageInfo)
   apply (simp add: connect_commands_def)
  apply (rule completes_console_error)
  done

lemma issues_pairDevice:
  assumes "\<forall>w. diagnostic_ok env w"
  shows "issues (pair_command ip port code) (pairDevice env ip port code) s"
  unfolding pairDevice_def
  apply (rule issues_try_catch)
  apply (rule issues_bind_second[OF completes_addToDebugLog[where cs = "[]"]])
  apply (rule issues_bind_second[OF completes_addToDebugLog[where cs = "[]"]])
  apply (rule issues_bind_first[OF issues_execCommand,
        where cs = "connect_commands (adbPath s) ip port"])
   apply (simp add: assms)
  apply (rule completes_bind[OF completes_addToDebugLog])
  apply (rule completes_bind[OF completes_addToDebugLog])
  apply (rule completes_bind[OF completes_addToDebugLog])
  apply (rule completes_if)
   apply (rule completes_bind[OF completes_console_log])
   apply (rule completes_connectDevice)
   apply simp
  apply (rule completes_console_error)
  done

lemma issues_isDeviceConnected:
  assumes "\<forall>w. diagnostic_ok env w"
  shows "issues ''adb devices'' (isDeviceConnected env) s"
  unfolding isDeviceConnected_def
  apply (rule issues_try_catch)
  apply (rule issues_bind_first[OF issues_execCommand, where cs = "[]"])
   apply (simp add: assms)
  apply (rule completes_bind[OF completes_addToDebugLog])
  apply (rule completes_bind[OF completes_emit])
   apply (simp add: command_in_def)
  apply (rule completes_unit)
  done

text \<open>
  C9: the probe hands only \<^verbatim>\<open>adb devices\<close> to the shell. \<^verbatim>\<open>pairDevice\<close> hands it
  \<^verbatim>\<open>adb pair <ip>:<port> <code>\<close> and \<^verbatim>\<open>connectDevice\<close> \<^verbatim>\<open>adb connect <ip>:<port>\<close>, both with the
  literal program name, next to the diagnostic \<^verbatim>\<open>adb devices\<close> and the commands of the
  routines they call. Only the package list and the disk-free command begin with the
  value of \<^verbatim>\<open>adbPath\<close>. All five routines return normally; and, where the diagnostic of
  \<^verbatim>\<open>execCommand\<close> completes, each of them does hand its command to the shell.
\<close>

theorem commands_name_adb_literally:
  "completes [''adb devices''] (isDeviceConnected env) s \<and>
   completes (pair_commands (adbPath s) ip port code) (pairDevice env ip port code) s \<and>
   completes (connect_commands (adbPath s) ip port) (connectDevice env ip port) s \<and>
   completes [''adb devices'', to_string (adbPath s) @ '' shell pm list packages'']
     (getInstalledApps env) s \<and>
   completes [''adb devices'', to_string (adbPath s) @ '' shell df''] (getStorageInfo env) s \<and>
   pair_commands (adbPath s) ip port code =
     [''adb pair '' @ ip @ '':'' @ port @ '' '' @ code,
      ''adb devices'',
      ''adb connect '' @ ip @ '':'' @ port,
      to_string (adbPath s) @ '' shell pm list packages'',
      to_string (adbPath s) @ '' shell df''] \<and>
   connect_commands (adbPath s) ip port =
     [''adb devices'',
      ''adb connect '' @ ip @ '':'' @ port,
      to_string (adbPath s) @ '' shell pm list packages'',
      to_string (adbPath s) @ '' shell df''] \<and>
   ((\<forall>w. diagnostic_ok env w) \<longrightarrow>
      issues ''adb devices'' (isDeviceConnected env) s \<and>
      issues (''adb pair '' @ ip @ '':'' @ port @ '' '' @ code) (pairDevice env ip port code) s \<and>
      issues (''adb connect '' @ ip @ '':'' @ port) (connectDevice env ip port) s \<and>
      issues (to_string (adbPath s) @ '' shell pm list packages'') (getInstalledApps env) s \<and>
      issues (to_string (adbPath s) @ '' shell df'') (getStorageInfo env) s)"
proof -
  have probe: "completes [''adb devices''] (isDeviceConnected env) s"
    by (rule completes_isDeviceConnected)
  have pair: "completes (pair_commands (adbPath s) ip port code) (pairDevice env ip port code) s"
    by (rule completes_pairDevice[OF subset_refl])
  have conn: "completes (connect_commands (adbPath s) ip port) (connectDevice env ip port) s"
    by (rule completes_connectDevice[OF subset_refl])
  have apps: "completes [''adb devices'', to_string (adbPath s) @ '' shell pm list packages'']
     (getInstalledApps env) s"
    by (rule completes_getInstalledApps[OF subset_refl])
  have df: "completes [''adb devices'', to_string (adbPath s) @ '' shell df''] (getStorageInfo env) s"
    by (rule completes_getStorageInfo[OF subset_refl])
  have issued: "issues ''adb devices'' (isDeviceConnected env) s \<and>
      issues (''adb pair '' @ ip @ '':'' @ port @ '' '' @ code) (pairDevice env ip port code) s \<and>
      issues (''adb connect '' @ ip @ '':'' @ port) (connectDevice env ip port) s \<and>
      issues (to_string (adbPath s) @ '' shell pm list packages'') (getInstalledApps env) s \<and>
      issues (to_string (adbPath s) @ '' shell df'') (getStorageInfo env) s"
    if ok: "\<forall>w. diagnostic_ok env w"
    using issues_isDeviceConnected[OF ok, of s] issues_pairDevice[OF ok, of ip port code s]
      issues_connectDevice[OF ok, of ip port s] issues_getInstalledApps[OF ok, of s]
      issues_getStorageInfo[OF ok, of s]
    by (simp add: pair_command_def connect_command_def)
  from probe pair conn apps df issued show ?thesis
    by (simp add: pair_commands_def connect_commands_def pair_command_def connect_command_def)
qed

theorem commands_name_adb_literally_witness:
  "(\<forall>w. diagnostic_ok no_which_env w) \<and>
   fst (findAdbPath no_which_env (initial ())) =
     Inr (JsString ''/home/user/Android/Sdk/platform-tools/adb'') \<and>
   issues ''adb pair 192.168.1.20:37000 123456''
     (pairDevice no_which_env ''192.168.1.20'' ''37000'' ''123456'')
     ((initial ())\<lparr>adbPath := JsString ''/home/user/Android/Sdk/platform-tools/adb''\<rparr>) \<and>
   issues ''adb connect 192.168.1.20:37000''
     (connectDevice no_which_env ''192.168.1.20'' ''37000'')
     ((initial ())\<lparr>adbPath := JsString ''/home/user/Android/Sdk/platform-tools/adb''\<rparr>) \<and>
   issues ''/home/user/Android/Sdk/platform-tools/adb shell pm list packages''
     (getInstalledApps no_which_env)
     ((initial ())\<lparr>adbPath := JsString ''/home/user/Android/Sdk/platform-tools/adb''\<rparr>)"
proof -
  let ?s = "(initial ())\<lparr>adbPath := JsString ''/home/user/Android/Sdk/platform-tools/adb''\<rparr>"
  have ok: "\<forall>w. diagnostic_ok no_which_env w"
    by (simp add: diagnostic_ok_def no_which_env_def no_which_shell_def)
  have d: "shell no_which_env ''adb devices'' (world (initial ())) = (Exited device_header [] 0, ())"
    by (simp add: no_which_env_def no_which_shell_def)
  have w: "shell no_which_env ''which adb'' () =
      (Exited [] ''which: no adb in (/usr/bin:/bin)'' 1, ())"
    by (simp add: no_which_env_def no_which_shell_def)
  have paths: "commonPaths no_which_env =
      [''/usr/local/bin/adb'', ''/opt/homebrew/bin/adb'',
       ''/home/user/Library/Android/sdk/platform-tools/adb'',
       ''/home/user/Android/Sdk/platform-tools/adb'', ''/usr/bin/adb'']"
    by (simp add: commonPaths_def no_which_env_def fixed_env_def)
  have size: "file_size no_which_env p x = sdk_only p" for p x
    by (simp add: no_which_env_def fixed_env_def)
  have first: "first_nonempty_file no_which_env x (commonPaths no_which_env) =
      JsString ''/home/user/Android/Sdk/platform-tools/adb''" for x
    unfolding paths by (simp add: first_nonempty_file_def size sdk_only_def)
  have found: "fst (findAdbPath no_which_env (initial ())) =
      Inr (JsString ''/home/user/Android/Sdk/platform-tools/adb'')"
    using findAdbPath_eq[OF execCommand_nonzero[OF d w]]
    by (simp add: caught_def first)
  from commands_name_adb_literally[of no_which_env ?s "''192.168.1.20''" "''37000''" "''123456''"] ok
  have "issues ''adb pair 192.168.1.20:37000 123456''
     (pairDevice no_which_env ''192.168.1.20'' ''37000'' ''123456'') ?s \<and>
   issues ''adb connect 192.168.1.20:37000''
     (connectDevice no_which_env ''192.168.1.20'' ''37000'') ?s \<and>
   issues ''/home/user/Android/Sdk/platform-tools/adb shell pm list packages''
     (getInstalledApps no_which_env) ?s"
    by simp
  with ok found show ?thesis by simp
qed

end
